theory Spec2Isabelle
  imports Complex_Main
begin

section \<open>Shared values: JSON payloads, envelopes, errors, counters\<close>

text \<open>
  Event payloads are Python dictionaries with arbitrary JSON values. The development
  covers strings, integers, booleans, \<open>None\<close> and nested dictionaries; a dictionary is
  an association list in insertion order and a lookup takes the first binding of a key.
  A string is a list of ASCII characters.
\<close>

datatype json = JStr string | JInt int | JBool bool | JNull | JObj "(string \<times> json) list"

type_synonym pydict = "(string \<times> json) list"

text \<open>\<open>d.get(k)\<close> and \<open>d.get(k, default)\<close>.\<close>

definition dict_get :: "pydict \<Rightarrow> string \<Rightarrow> json" where
  "dict_get d k = (case map_of d k of None \<Rightarrow> JNull | Some v \<Rightarrow> v)"

definition dict_get_default :: "pydict \<Rightarrow> string \<Rightarrow> json \<Rightarrow> json" where
  "dict_get_default d k dflt = (case map_of d k of None \<Rightarrow> dflt | Some v \<Rightarrow> v)"

text \<open>
  The exceptions that the modelled code can raise. A handler that raises leaves its
  database session uncommitted, so the transaction is rolled back: the model returns
  \<open>Inl\<close> of the error and no new database.
\<close>

datatype error =
    InvalidTransition string string
  | ConcurrencyConflict string int
  | LedgerImbalance
  | KeyError string
  | TypeError
  | ValueError string
  | AttributeError
  | IntegrityError
  | DataError
  | MultipleResultsFound

definition seq :: "error + 'a \<Rightarrow> ('a \<Rightarrow> error + 'b) \<Rightarrow> error + 'b" where
  "seq m f = (case m of Inl e \<Rightarrow> Inl e | Inr x \<Rightarrow> f x)"

text \<open>\<open>d[k]\<close> raises \<open>KeyError\<close> on a missing key.\<close>

definition dict_item :: "pydict \<Rightarrow> string \<Rightarrow> error + json" where
  "dict_item d k = (case map_of d k of None \<Rightarrow> Inl (KeyError k) | Some v \<Rightarrow> Inr v)"

text \<open>
  \<open>EventEnvelope\<close> of \<open>common/events.py\<close>. The two defaulted fields (\<open>event_id\<close> from
  \<open>uuid4\<close>, \<open>occurred_at\<close> from the clock) are supplied by the caller of every function
  that builds an envelope, in a record of fresh values.
\<close>

record EventEnvelope =
  event_id :: string
  event_type :: string
  aggregate_id :: string
  occurred_at :: string
  trace_id :: string
  payload :: pydict

definition model_dump :: "EventEnvelope \<Rightarrow> pydict" where
  "model_dump e =
     [(''event_id'', JStr (event_id e)),
      (''event_type'', JStr (event_type e)),
      (''aggregate_id'', JStr (aggregate_id e)),
      (''occurred_at'', JStr (occurred_at e)),
      (''trace_id'', JStr (trace_id e)),
      (''payload'', JObj (payload e))]"

text \<open>
  Fresh values drawn while one outbox row is written: the row's primary key, and the
  \<open>event_id\<close> and \<open>occurred_at\<close> of the envelope stored in it.
\<close>

record fresh =
  new_row_id :: string
  new_event_id :: string
  new_occurred_at :: string

text \<open>
  Prometheus counters, one value per counter name and label values. Only counters are
  represented; the latency histograms observe wall-clock differences and are left out.
\<close>

type_synonym metrics = "string \<times> string list \<Rightarrow> nat"

definition inc :: "metrics \<Rightarrow> string \<Rightarrow> string list \<Rightarrow> metrics" where
  "inc m name labels = m((name, labels) := Suc (m (name, labels)))"

section \<open>Transactional outbox (\<open>common/outbox.py\<close>)\<close>

text \<open>
  One row of a service's \<open>outbox_events\<close> table. The column \<open>created_at\<close>, filled by the
  server's clock on insert, is not represented. Instants of the service clock are
  natural numbers.
\<close>

type_synonym datetime = nat

record OutboxEvent =
  ob_id :: string
  ob_aggregate_type :: string
  ob_aggregate_id :: string
  ob_event_type :: string
  ob_topic :: string
  ob_payload :: pydict
  ob_status :: string
  ob_sent_at :: "datetime option"

text \<open>
  \<open>UPDATE outbox_events SET status = 'SENT', sent_at = now
     WHERE id = event_id AND status = 'PROCESSING'\<close>
\<close>

definition mark_outbox_sent :: "datetime \<Rightarrow> OutboxEvent list \<Rightarrow> string \<Rightarrow> OutboxEvent list" where
  "mark_outbox_sent now tbl eid =
     map (\<lambda>r. if ob_id r = eid \<and> ob_status r = ''PROCESSING''
               then r\<lparr>ob_status := ''SENT'', ob_sent_at := Some now\<rparr> else r) tbl"

text \<open>
  \<open>UPDATE outbox_events SET status = 'PENDING', sent_at = NULL
     WHERE id = event_id AND status = 'PROCESSING'\<close>
\<close>

definition requeue_outbox_event :: "OutboxEvent list \<Rightarrow> string \<Rightarrow> OutboxEvent list" where
  "requeue_outbox_event tbl eid =
     map (\<lambda>r. if ob_id r = eid \<and> ob_status r = ''PROCESSING''
               then r\<lparr>ob_status := ''PENDING'', ob_sent_at := None\<rparr> else r) tbl"

text \<open>The outbox row that a service adds for an envelope: status \<open>PENDING\<close> by default.\<close>

definition new_outbox :: "fresh \<Rightarrow> string \<Rightarrow> string \<Rightarrow> string \<Rightarrow> pydict \<Rightarrow> OutboxEvent" where
  "new_outbox g agg topic trace pl =
     \<lparr>ob_id = new_row_id g,
      ob_aggregate_type = ''payment'',
      ob_aggregate_id = agg,
      ob_event_type = topic,
      ob_topic = topic,
      ob_payload = model_dump
        \<lparr>event_id = new_event_id g, event_type = topic, aggregate_id = agg,
         occurred_at = new_occurred_at g, trace_id = trace, payload = pl\<rparr>,
      ob_status = ''PENDING'',
      ob_sent_at = None\<rparr>"

section \<open>Python string and integer helpers\<close>

text \<open>
  Characters are bytes here, so \<open>lower\<close> and \<open>upper\<close> act on the ASCII letters only.
\<close>

definition lower_char :: "char \<Rightarrow> char" where
  "lower_char c =
     (let n = (of_char c :: nat) in if 65 \<le> n \<and> n \<le> 90 then char_of (n + 32) else c)"

definition upper_char :: "char \<Rightarrow> char" where
  "upper_char c =
     (let n = (of_char c :: nat) in if 97 \<le> n \<and> n \<le> 122 then char_of (n - 32) else c)"

definition py_lower :: "string \<Rightarrow> string" where
  "py_lower s = map lower_char s"

definition py_upper :: "string \<Rightarrow> string" where
  "py_upper s = map upper_char s"

definition startswith :: "string \<Rightarrow> string \<Rightarrow> bool" where
  "startswith s p = (take (length p) s = p)"

fun show_nat :: "nat \<Rightarrow> string" where
  "show_nat n =
     (if n < 10 then [char_of (48 + n)] else show_nat (n div 10) @ [char_of (48 + n mod 10)])"

declare show_nat.simps [simp del]

definition show_int :: "int \<Rightarrow> string" where
  "show_int i = (if i < 0 then CHR ''-'' # show_nat (nat (- i)) else show_nat (nat i))"

fun join_comma :: "string list \<Rightarrow> string" where
  "join_comma [] = []"
| "join_comma [x] = x"
| "join_comma (x # y # ys) = x @ '', '' @ join_comma (y # ys)"

definition quoted :: "string \<Rightarrow> string" where
  "quoted s = CHR 0x27 # s @ [CHR 0x27]"

text \<open>
  \<open>str(v)\<close> as an f-string applies it. Strings, integers, booleans and \<open>None\<close> are
  rendered as Python does. A nested dictionary is rendered in the shape of Python's
  \<open>repr\<close>, without the escaping that \<open>repr\<close> applies inside quoted strings.
\<close>

fun py_repr :: "json \<Rightarrow> string" where
  "py_repr (JStr s) = quoted s"
| "py_repr (JInt i) = show_int i"
| "py_repr (JBool b) = (if b then ''True'' else ''False'')"
| "py_repr JNull = ''None''"
| "py_repr (JObj kvs) =
     ''{'' @ join_comma (map (\<lambda>kv. quoted (fst kv) @ '': '' @ py_repr (snd kv)) kvs) @ ''}''"

definition py_str :: "json \<Rightarrow> string" where
  "py_str v = (case v of JStr s \<Rightarrow> s | _ \<Rightarrow> py_repr v)"

definition digit_val :: "char \<Rightarrow> nat option" where
  "digit_val c =
     (let n = (of_char c :: nat) in if 48 \<le> n \<and> n \<le> 57 then Some (n - 48) else None)"

text \<open>
  The digits of a decimal literal after its first digit: an underscore may stand
  between two digits and nowhere else.
\<close>

fun parse_tail :: "string \<Rightarrow> nat \<Rightarrow> nat option" where
  "parse_tail [] acc = Some acc"
| "parse_tail [c] acc =
     (case digit_val c of None \<Rightarrow> None | Some d \<Rightarrow> Some (10 * acc + d))"
| "parse_tail (c # c' # cs) acc =
     (if c = CHR ''_''
      then (case digit_val c' of None \<Rightarrow> None | Some d \<Rightarrow> parse_tail cs (10 * acc + d))
      else (case digit_val c of None \<Rightarrow> None | Some d \<Rightarrow> parse_tail (c' # cs) (10 * acc + d)))"

definition parse_digits :: "string \<Rightarrow> nat option" where
  "parse_digits s =
     (case s of
        [] \<Rightarrow> None
      | c # cs \<Rightarrow>
          (if length (filter (\<lambda>x. x \<noteq> CHR ''_'') s) > 4300 then None
           else case digit_val c of None \<Rightarrow> None | Some d \<Rightarrow> parse_tail cs d))"

text \<open>The ASCII characters that Python strips as white space.\<close>

definition is_space :: "char \<Rightarrow> bool" where
  "is_space c = (let n = (of_char c :: nat) in (9 \<le> n \<and> n \<le> 13) \<or> (28 \<le> n \<and> n \<le> 32))"

definition py_strip :: "string \<Rightarrow> string" where
  "py_strip s = rev (dropWhile is_space (rev (dropWhile is_space s)))"

text \<open>
  \<open>int(v)\<close>. An integer is returned as it is and a boolean as 0 or 1; \<open>None\<close> and a
  dictionary raise \<open>TypeError\<close>. A string is stripped of surrounding white space and
  read as an optional sign followed by decimal digits, with single underscores allowed
  between digits; anything else, and a literal of more than 4300 digits (the
  interpreter's default limit), raises \<open>ValueError\<close>.
\<close>

definition py_int :: "json \<Rightarrow> error + int" where
  "py_int v =
     (case v of
        JInt i \<Rightarrow> Inr i
      | JBool b \<Rightarrow> Inr (if b then 1 else 0)
      | JStr s \<Rightarrow>
          (case py_strip s of
             [] \<Rightarrow> Inl (ValueError ''invalid literal for int()'')
           | c # cs \<Rightarrow>
               (if c = CHR ''-'' then
                  (case parse_digits cs of
                     None \<Rightarrow> Inl (ValueError ''invalid literal for int()'')
                   | Some n \<Rightarrow> Inr (- int n))
                else if c = CHR ''+'' then
                  (case parse_digits cs of
                     None \<Rightarrow> Inl (ValueError ''invalid literal for int()'')
                   | Some n \<Rightarrow> Inr (int n))
                else
                  (case parse_digits (c # cs) of
                     None \<Rightarrow> Inl (ValueError ''invalid literal for int()'')
                   | Some n \<Rightarrow> Inr (int n))))
      | _ \<Rightarrow> Inl TypeError)"

section \<open>Column types of the relational store\<close>

text \<open>
  The tables are PostgreSQL tables. An \<open>INTEGER\<close> column holds a 32-bit signed integer,
  and every column written by the modelled code except \<open>error_code\<close>, \<open>from_state\<close>,
  \<open>event_id\<close> of the audit rows and \<open>sent_at\<close> is \<open>NOT NULL\<close>. A statement that would store a
  value outside the column's type raises \<open>DataError\<close>, and one that would store \<open>NULL\<close> in
  a \<open>NOT NULL\<close> column raises \<open>IntegrityError\<close>; either rolls the transaction back. Where one
  statement has both faults the type fault is reported, since values are converted
  before constraints are checked.

  A value taken from a payload is stored in an \<open>INTEGER\<close> column if it is an integer in
  range, and in a character column if it is a string. A value of any other type is
  refused; conversions that a database driver may apply to such a value are not part
  of this model.

  The character columns are unbounded, except \<open>currency\<close> of \<open>payments\<close>, which holds at
  most three characters. Strings are taken to be free of the NUL character, which no
  character column can hold.
\<close>

definition int4 :: "int \<Rightarrow> bool" where
  "int4 n = (- 2147483648 \<le> n \<and> n \<le> 2147483647)"

definition integer_column :: "json \<Rightarrow> error + int" where
  "integer_column v =
     (case v of
        JInt n \<Rightarrow> (if int4 n then Inr n else Inl DataError)
      | JNull \<Rightarrow> Inl IntegrityError
      | _ \<Rightarrow> Inl DataError)"

definition string_column :: "json \<Rightarrow> error + string" where
  "string_column v =
     (case v of JStr x \<Rightarrow> Inr x | JNull \<Rightarrow> Inl IntegrityError | _ \<Rightarrow> Inl DataError)"

definition nullable_string_column :: "json \<Rightarrow> error + string option" where
  "nullable_string_column v =
     (case v of JStr x \<Rightarrow> Inr (Some x) | JNull \<Rightarrow> Inr None | _ \<Rightarrow> Inl DataError)"

definition int_column :: "int \<Rightarrow> error + int" where
  "int_column n = (if int4 n then Inr n else Inl DataError)"

text \<open>The values of one row, bound together: a type fault in any column comes first.\<close>

definition bind2 :: "error + 'a \<Rightarrow> error + 'b \<Rightarrow> error + 'a \<times> 'b" where
  "bind2 a b =
     (if a = Inl DataError \<or> b = Inl DataError then Inl DataError
      else seq a (\<lambda>x. seq b (\<lambda>y. Inr (x, y))))"

definition bind3 :: "error + 'a \<Rightarrow> error + 'b \<Rightarrow> error + 'c \<Rightarrow> error + 'a \<times> 'b \<times> 'c" where
  "bind3 a b c =
     (if a = Inl DataError \<or> b = Inl DataError \<or> c = Inl DataError then Inl DataError
      else seq a (\<lambda>x. seq b (\<lambda>y. seq c (\<lambda>z. Inr (x, y, z)))))"

section \<open>Inbox deduplication, shared by the four services\<close>

text \<open>
  Every service database has an \<open>outbox_events\<close> and an \<open>inbox_events\<close> table; the
  service records below extend this one. An inbox row is its key
  \<open>(event_id, consumed_by_service)\<close>; \<open>consumed_at\<close> is filled by the server.

  The handlers run one at a time on the database, each inside one transaction. The
  uniqueness constraints of the tables are therefore not branches of the model: that
  the handlers never insert a second row with the same key is proved from their code.
\<close>

record svc_db =
  outbox_events :: "OutboxEvent list"
  inbox_events :: "(string \<times> string) list"

definition scalar_one_or_none :: "'a list \<Rightarrow> error + 'a option" where
  "scalar_one_or_none rows =
     (case rows of [] \<Rightarrow> Inr None | [r] \<Rightarrow> Inr (Some r) | _ \<Rightarrow> Inl MultipleResultsFound)"

definition inbox_seen :: "string \<Rightarrow> 'a svc_db_scheme \<Rightarrow> string \<Rightarrow> error + bool" where
  "inbox_seen svc db eid =
     seq (scalar_one_or_none (filter (\<lambda>r. fst r = eid \<and> snd r = svc) (inbox_events db)))
         (\<lambda>existing. Inr (existing \<noteq> None))"

definition mark_inbox :: "string \<Rightarrow> 'a svc_db_scheme \<Rightarrow> string \<Rightarrow> 'a svc_db_scheme" where
  "mark_inbox svc db eid = db\<lparr>inbox_events := inbox_events db @ [(eid, svc)]\<rparr>"

definition add_outbox :: "'a svc_db_scheme \<Rightarrow> OutboxEvent \<Rightarrow> 'a svc_db_scheme" where
  "add_outbox db row = db\<lparr>outbox_events := outbox_events db @ [row]\<rparr>"

definition record_duplicate_skip :: "string \<Rightarrow> metrics \<Rightarrow> string \<Rightarrow> metrics" where
  "record_duplicate_skip svc m topic = inc m ''duplicate_events_skipped_total'' [svc, topic]"

section \<open>Payment state machine (\<open>common/state_machine.py\<close>)\<close>

definition ALLOWED_TRANSITIONS :: "(string \<times> string list) list" where
  "ALLOWED_TRANSITIONS =
     [(''CREATED'', [''RISK_REVIEW'', ''APPROVED'', ''FAILED'']),
      (''RISK_REVIEW'', [''APPROVED'', ''FAILED'']),
      (''APPROVED'', [''AUTHORIZED'', ''FAILED'']),
      (''AUTHORIZED'', [''CAPTURED'', ''FAILED'', ''REVERSED'']),
      (''CAPTURED'', [''SETTLED'', ''FAILED'', ''REVERSED'']),
      (''SETTLED'', []),
      (''FAILED'', [''REVERSED'']),
      (''REVERSED'', [])]"

text \<open>\<open>ALLOWED_TRANSITIONS.get(current, set())\<close>\<close>

definition allowed_from :: "string \<Rightarrow> string list" where
  "allowed_from current =
     (case map_of ALLOWED_TRANSITIONS current of None \<Rightarrow> [] | Some targets \<Rightarrow> targets)"

definition validate_transition :: "string \<Rightarrow> string \<Rightarrow> error + unit" where
  "validate_transition current new =
     (if new \<notin> set (allowed_from current) then Inl (InvalidTransition current new)
      else Inr ())"

section \<open>Orchestrator (\<open>services/orchestrator\<close>)\<close>

text \<open>
  The rows of the orchestrator's tables. Surrogate keys drawn by \<open>uuid4\<close> that nothing
  reads (\<open>timeline_id\<close>, \<open>attempt_id\<close>) and the timestamp columns are not represented.
\<close>

record Payment =
  payment_id :: string
  customer_id :: string
  amount_cents :: int
  currency :: string
  status :: string
  state_version :: int
  idempotency_key :: string

record PaymentAttempt =
  pa_payment_id :: string
  pa_attempt_number :: int
  pa_result :: string
  pa_latency_ms :: int
  pa_error_code :: "string option"

record PaymentTimeline =
  pt_payment_id :: string
  from_state :: "string option"
  to_state :: string
  reason :: string
  pt_event_id :: "string option"

record orch_db = svc_db +
  payments :: "Payment list"
  payment_attempts :: "PaymentAttempt list"
  payment_timeline :: "PaymentTimeline list"

record PaymentCreateRequest =
  req_customer_id :: string
  req_amount_cents :: int
  req_currency :: string
  req_idempotency_key :: string

text \<open>\<open>db.get(Payment, pid)\<close>: the row with that primary key, if any.\<close>

definition get_payment :: "orch_db \<Rightarrow> string \<Rightarrow> Payment option" where
  "get_payment db pid = find (\<lambda>r. payment_id r = pid) (payments db)"

text \<open>
  \<open>create_payment\<close>. The new row's \<open>payment_id\<close> is the \<open>uuid4\<close> default, drawn when the
  row is flushed; it is the argument \<open>pid\<close>. The flush inserts the row. The insert is
  refused with \<open>DataError\<close> when \<open>amount_cents\<close> does not fit its \<open>INTEGER\<close> column or the
  currency its \<open>VARCHAR(3)\<close> column, and with \<open>IntegrityError\<close> when the primary key or the
  unique \<open>idempotency_key\<close> is already stored.
\<close>

definition create_payment ::
  "orch_db \<Rightarrow> PaymentCreateRequest \<Rightarrow> string \<Rightarrow> string \<Rightarrow> fresh \<Rightarrow> error + orch_db \<times> Payment" where
  "create_payment db req trace pid g =
     seq (scalar_one_or_none
            (filter (\<lambda>r. idempotency_key r = req_idempotency_key req) (payments db)))
       (\<lambda>existing.
          case existing of
            Some p \<Rightarrow> Inr (db, p)
          | None \<Rightarrow>
              (let payment =
                     \<lparr>payment_id = pid,
                      customer_id = req_customer_id req,
                      amount_cents = req_amount_cents req,
                      currency = py_upper (req_currency req),
                      status = ''CREATED'',
                      state_version = 0,
                      idempotency_key = req_idempotency_key req\<rparr>
               in if \<not> int4 (amount_cents payment) \<or> length (currency payment) > 3
                  then Inl DataError
                  else if pid \<in> payment_id ` set (payments db)
                     \<or> req_idempotency_key req \<in> idempotency_key ` set (payments db)
                  then Inl IntegrityError
                  else
                    (let db1 = db\<lparr>payments := payments db @ [payment]\<rparr>;
                         db2 = db1\<lparr>payment_timeline := payment_timeline db1 @
                                 [\<lparr>pt_payment_id = payment_id payment,
                                   from_state = None,
                                   to_state = ''CREATED'',
                                   reason = ''payment_created'',
                                   pt_event_id = None\<rparr>]\<rparr>;
                         db3 = add_outbox db2
                                 (new_outbox g (payment_id payment) ''payments.requested'' trace
                                    [(''customer_id'', JStr (customer_id payment)),
                                     (''amount_cents'', JInt (amount_cents payment)),
                                     (''currency'', JStr (currency payment))])
                     in Inr (db3, payment))))"

text \<open>
  \<open>_transition\<close>. \<open>payment\<close> is the object that the handler holds; the conditional
  \<open>UPDATE\<close> runs on the stored rows, and \<open>rowcount\<close> is the number of rows it matched.
  The statement is refused with \<open>DataError\<close> when the new \<open>state_version\<close> does not fit
  its \<open>INTEGER\<close> column. On success the held object is updated as well and returned with
  the database.
\<close>

definition transition ::
  "orch_db \<Rightarrow> Payment \<Rightarrow> string \<Rightarrow> string \<Rightarrow> string option \<Rightarrow> error + orch_db \<times> Payment" where
  "transition db payment new_status rsn eid =
     seq (validate_transition (status payment) new_status)
       (\<lambda>_.
          let from_status = status payment;
              current_version = state_version payment;
              hit = (\<lambda>r. payment_id r = payment_id payment \<and> status r = from_status
                          \<and> state_version r = current_version);
              rowcount = length (filter hit (payments db))
          in if \<not> int4 (current_version + 1) then Inl DataError
             else if rowcount \<noteq> 1
             then Inl (ConcurrencyConflict (payment_id payment) current_version)
             else Inr
               (db\<lparr>payments :=
                      map (\<lambda>r. if hit r
                                then r\<lparr>status := new_status, state_version := current_version + 1\<rparr>
                                else r) (payments db),
                    payment_timeline := payment_timeline db @
                      [\<lparr>pt_payment_id = payment_id payment,
                        from_state = Some from_status,
                        to_state = new_status,
                        reason = rsn,
                        pt_event_id = eid\<rparr>]\<rparr>,
                payment\<lparr>status := new_status, state_version := current_version + 1\<rparr>))"

text \<open>
  The five consumers. Each returns the committed database and the counters, or the
  exception that rolled the transaction back. A counter is only touched on the
  duplicate path or after the commit. The session does not flush before the commit, so
  the values of a \<open>PaymentAttempt\<close> are bound to their columns when the handler commits,
  after everything else it does.
\<close>

definition handle_risk_approved ::
  "string \<Rightarrow> orch_db \<Rightarrow> metrics \<Rightarrow> EventEnvelope \<Rightarrow> fresh \<Rightarrow> error + orch_db \<times> metrics" where
  "handle_risk_approved svc db m event g =
     seq (inbox_seen svc db (event_id event))
       (\<lambda>seen.
          if seen then Inr (db, record_duplicate_skip svc m ''risk.approved'')
          else case get_payment db (aggregate_id event) of
            None \<Rightarrow> Inr (mark_inbox svc db (event_id event), m)
          | Some payment \<Rightarrow>
              seq (transition db payment ''APPROVED'' ''risk_approved'' (Some (event_id event)))
                (\<lambda>(db1, payment1).
                   let db2 = mark_inbox svc db1 (event_id event);
                       db3 = add_outbox db2
                               (new_outbox g (payment_id payment1) ''provider.authorize.requested''
                                  (trace_id event)
                                  [(''amount_cents'', JInt (amount_cents payment1)),
                                   (''currency'', JStr (currency payment1)),
                                   (''customer_id'', JStr (customer_id payment1))])
                   in Inr (db3, m)))"

definition handle_risk_denied ::
  "string \<Rightarrow> orch_db \<Rightarrow> metrics \<Rightarrow> EventEnvelope \<Rightarrow> error + orch_db \<times> metrics" where
  "handle_risk_denied svc db m event =
     seq (inbox_seen svc db (event_id event))
       (\<lambda>seen.
          if seen then Inr (db, record_duplicate_skip svc m ''risk.denied'')
          else case get_payment db (aggregate_id event) of
            None \<Rightarrow> Inr (mark_inbox svc db (event_id event), m)
          | Some payment \<Rightarrow>
              (let target = (if dict_get (payload event) ''decision'' = JStr ''REVIEW''
                             then ''RISK_REVIEW'' else ''FAILED'');
                   rsn = (if target = ''RISK_REVIEW'' then ''risk_review_required''
                          else ''risk_denied'')
               in seq (transition db payment target rsn (Some (event_id event)))
                    (\<lambda>(db1, payment1).
                       Inr (mark_inbox svc db1 (event_id event),
                            inc m ''payment_failure_total'' [svc]))))"

definition handle_authorized ::
  "string \<Rightarrow> orch_db \<Rightarrow> metrics \<Rightarrow> EventEnvelope \<Rightarrow> fresh \<Rightarrow> error + orch_db \<times> metrics" where
  "handle_authorized svc db m event g =
     seq (inbox_seen svc db (event_id event))
       (\<lambda>seen.
          if seen then Inr (db, record_duplicate_skip svc m ''payments.authorized'')
          else case get_payment db (aggregate_id event) of
            None \<Rightarrow> Inr (mark_inbox svc db (event_id event), m)
          | Some payment \<Rightarrow>
              seq (transition db payment ''AUTHORIZED'' ''provider_authorized''
                     (Some (event_id event)))
                (\<lambda>(db1, payment1).
                   seq (transition db1 payment1 ''CAPTURED'' ''capture_requested''
                          (Some (event_id event)))
                     (\<lambda>(db2, payment2).
                        seq (bind2
                               (integer_column
                                  (dict_get_default (payload event) ''attempt_number'' (JInt 1)))
                               (integer_column
                                  (dict_get_default (payload event) ''latency_ms'' (JInt 0))))
                          (\<lambda>(attempt_number, latency_ms).
                             let db3 = db2\<lparr>payment_attempts := payment_attempts db2 @
                                         [\<lparr>pa_payment_id = payment_id payment2,
                                           pa_attempt_number = attempt_number,
                                           pa_result = ''AUTHORIZED'',
                                           pa_latency_ms = latency_ms,
                                           pa_error_code = None\<rparr>]\<rparr>;
                                 db4 = mark_inbox svc db3 (event_id event);
                                 db5 = add_outbox db4
                                         (new_outbox g (payment_id payment2) ''payments.captured''
                                            (trace_id event)
                                            [(''amount_cents'', JInt (amount_cents payment2)),
                                             (''currency'', JStr (currency payment2)),
                                             (''customer_id'', JStr (customer_id payment2))])
                             in Inr (db5, m)))))"

definition handle_failed ::
  "string \<Rightarrow> orch_db \<Rightarrow> metrics \<Rightarrow> EventEnvelope \<Rightarrow> fresh \<Rightarrow> error + orch_db \<times> metrics" where
  "handle_failed svc db m event g =
     seq (inbox_seen svc db (event_id event))
       (\<lambda>seen.
          if seen then Inr (db, record_duplicate_skip svc m ''payments.failed'')
          else case get_payment db (aggregate_id event) of
            None \<Rightarrow> Inr (mark_inbox svc db (event_id event), m)
          | Some payment \<Rightarrow>
              seq (if status payment \<noteq> ''FAILED''
                   then transition db payment ''FAILED''
                          (''provider_failed:'' @
                             py_str (dict_get_default (payload event) ''error_code'' (JStr ''UNKNOWN'')))
                          (Some (event_id event))
                   else Inr (db, payment))
                (\<lambda>(db1, payment1).
                   seq (if dict_get (payload event) ''error_code'' = JStr ''PROVIDER_TIMEOUT''
                        then seq (transition db1 payment1 ''REVERSED''
                                    ''provider_timeout_compensation'' (Some (event_id event)))
                               (\<lambda>(db3, payment3).
                                  Inr (add_outbox db3
                                         (new_outbox g (payment_id payment3) ''payments.reversed''
                                            (trace_id event)
                                            [(''reason'', JStr ''provider_timeout_compensation''),
                                             (''source_event_id'', JStr (event_id event))]),
                                       payment3))
                        else Inr (db1, payment1))
                     (\<lambda>(db4, payment4).
                        seq (bind3
                               (integer_column
                                  (dict_get_default (payload event) ''attempt_number'' (JInt 1)))
                               (integer_column
                                  (dict_get_default (payload event) ''latency_ms'' (JInt 0)))
                               (nullable_string_column
                                  (dict_get_default (payload event) ''error_code''
                                     (JStr ''UNKNOWN''))))
                          (\<lambda>(attempt_number, latency_ms, error_code).
                             let db5 = db4\<lparr>payment_attempts := payment_attempts db4 @
                                         [\<lparr>pa_payment_id = payment_id payment1,
                                           pa_attempt_number = attempt_number,
                                           pa_result = ''FAILED'',
                                           pa_latency_ms = latency_ms,
                                           pa_error_code = error_code\<rparr>]\<rparr>
                             in Inr (mark_inbox svc db5 (event_id event),
                                     inc m ''payment_failure_total'' [svc])))))"

definition handle_settled ::
  "string \<Rightarrow> orch_db \<Rightarrow> metrics \<Rightarrow> EventEnvelope \<Rightarrow> error + orch_db \<times> metrics" where
  "handle_settled svc db m event =
     seq (inbox_seen svc db (event_id event))
       (\<lambda>seen.
          if seen then Inr (db, record_duplicate_skip svc m ''payments.settled'')
          else case get_payment db (aggregate_id event) of
            None \<Rightarrow> Inr (mark_inbox svc db (event_id event), m)
          | Some payment \<Rightarrow>
              seq (transition db payment ''SETTLED'' ''ledger_settled'' (Some (event_id event)))
                (\<lambda>(db1, payment1).
                   Inr (mark_inbox svc db1 (event_id event),
                        inc m ''payment_success_total'' [svc])))"

section \<open>Configuration (\<open>common/config.py\<close>)\<close>

record CommonSettings =
  risk_velocity_per_hour :: int
  rate_limit_per_minute :: int
  idempotency_ttl_seconds :: int
  risk_review_amount_cents :: int
  risk_deny_frequency_threshold :: int

definition settings :: CommonSettings where
  "settings =
     \<lparr>risk_velocity_per_hour = 20,
      rate_limit_per_minute = 30,
      idempotency_ttl_seconds = 86400,
      risk_review_amount_cents = 100000,
      risk_deny_frequency_threshold = 50\<rparr>"

section \<open>Risk service (\<open>services/risk\<close>)\<close>

text \<open>
  The keys that the risk rules use in the key/value store hold integers; the store maps
  a key to its integer and, separately, to the time-to-live last set on it.
\<close>

record redis =
  r_val :: "string \<rightharpoonup> int"
  r_ttl :: "string \<rightharpoonup> nat"

definition redis_incr :: "redis \<Rightarrow> string \<Rightarrow> redis \<times> int" where
  "redis_incr rdb k =
     (let n = (case r_val rdb k of None \<Rightarrow> 0 | Some v \<Rightarrow> v) + 1
      in (rdb\<lparr>r_val := (r_val rdb)(k \<mapsto> n)\<rparr>, n))"

definition redis_expire :: "redis \<Rightarrow> string \<Rightarrow> nat \<Rightarrow> redis" where
  "redis_expire rdb k secs =
     (if r_val rdb k = None then rdb else rdb\<lparr>r_ttl := (r_ttl rdb)(k \<mapsto> secs)\<rparr>)"

record RiskReview =
  rr_payment_id :: string
  rr_customer_id :: string
  rr_amount_cents :: int
  rr_reason :: string
  rr_status :: string
  rr_reviewed_by :: "string option"
  rr_reviewed_at :: "datetime option"
  rr_decision_event_id :: "string option"

record risk_db = svc_db +
  risk_reviews :: "RiskReview list"

text \<open>
  \<open>_rule_decision\<close>. \<open>hour_key\<close> is the clock reading formatted as \<open>%Y%m%d%H\<close>.
\<close>

definition rule_decision ::
  "CommonSettings \<Rightarrow> redis \<Rightarrow> string \<Rightarrow> json \<Rightarrow> int \<Rightarrow> redis \<times> string \<times> string" where
  "rule_decision cfg rdb hour_key cust amount =
     (let velocity_key = ''velocity:'' @ py_str cust @ '':'' @ hour_key;
          (rdb1, current_hour_count) = redis_incr rdb velocity_key;
          rdb2 = redis_expire rdb1 velocity_key 7200;
          failed_key = ''failed_attempts:'' @ py_str cust;
          failed_attempts = (case r_val rdb2 failed_key of None \<Rightarrow> 0 | Some v \<Rightarrow> v)
      in if current_hour_count > risk_deny_frequency_threshold cfg
           then (rdb2, ''DENY'', ''high_frequency'')
         else if amount > risk_review_amount_cents cfg
           then (rdb2, ''REVIEW'', ''high_amount'')
         else if failed_attempts \<ge> 3
           then (rdb2, ''REVIEW'', ''multiple_failed_attempts'')
         else if current_hour_count > risk_velocity_per_hour cfg
           then (rdb2, ''REVIEW'', ''velocity_threshold'')
         else (rdb2, ''APPROVE'', ''rule_passed''))"

text \<open>
  \<open>handle_payment_requested\<close>. The increment in the key/value store is not part of the
  database transaction: it stays when a later step raises, so the store is returned
  beside the outcome. The values of a new \<open>RiskReview\<close> row are bound to their columns
  when the handler commits.
\<close>

definition handle_payment_requested ::
  "string \<Rightarrow> CommonSettings \<Rightarrow> risk_db \<Rightarrow> redis \<Rightarrow> metrics \<Rightarrow> EventEnvelope \<Rightarrow> string \<Rightarrow> fresh
     \<Rightarrow> (error + risk_db \<times> metrics) \<times> redis" where
  "handle_payment_requested svc cfg db rdb m event hour_key g =
     (case inbox_seen svc db (event_id event) of
        Inl e \<Rightarrow> (Inl e, rdb)
      | Inr True \<Rightarrow> (Inr (db, record_duplicate_skip svc m ''payments.requested''), rdb)
      | Inr False \<Rightarrow>
          (case seq (dict_item (payload event) ''customer_id'')
                  (\<lambda>cust. seq (dict_item (payload event) ''amount_cents'')
                     (\<lambda>v. seq (py_int v) (\<lambda>amount. Inr (cust, amount)))) of
             Inl e \<Rightarrow> (Inl e, rdb)
           | Inr (cust, amount) \<Rightarrow>
               (let (rdb1, decision, rsn) = rule_decision cfg rdb hour_key cust amount;
                    topic = (if decision = ''APPROVE'' then ''risk.approved'' else ''risk.denied'')
                in (seq (if decision = ''REVIEW''
                         then seq (scalar_one_or_none
                                     (filter (\<lambda>r. rr_payment_id r = aggregate_id event)
                                        (risk_reviews db)))
                                (\<lambda>existing_review.
                                   if existing_review = None
                                   then seq (bind2 (string_column cust) (int_column amount))
                                          (\<lambda>(customer, amount_cents).
                                             Inr (db\<lparr>risk_reviews := risk_reviews db @
                                                    [\<lparr>rr_payment_id = aggregate_id event,
                                                      rr_customer_id = customer,
                                                      rr_amount_cents = amount_cents,
                                                      rr_reason = rsn,
                                                      rr_status = ''PENDING'',
                                                      rr_reviewed_by = None,
                                                      rr_reviewed_at = None,
                                                      rr_decision_event_id = None\<rparr>]\<rparr>))
                                   else Inr db)
                         else Inr db)
                      (\<lambda>db1.
                         let db2 = add_outbox db1
                                     (new_outbox g (aggregate_id event) topic (trace_id event)
                                        [(''decision'', JStr decision),
                                         (''reason'', JStr rsn),
                                         (''customer_id'', cust)])
                         in Inr (mark_inbox svc db2 (event_id event), m)),
                    rdb1))))"

section \<open>Provider adapter (\<open>services/provider_adapter\<close>)\<close>

record ProviderAttempt =
  pv_payment_id :: string
  pv_attempt_number :: int
  pv_result :: string
  pv_latency_ms :: int
  pv_error_code :: "string option"

record prov_db = svc_db +
  provider_attempts :: "ProviderAttempt list"

definition enqueue_dlq ::
  "string \<Rightarrow> prov_db \<Rightarrow> metrics \<Rightarrow> EventEnvelope \<Rightarrow> string \<Rightarrow> string \<Rightarrow> bool \<Rightarrow> string option
     \<Rightarrow> fresh \<Rightarrow> prov_db \<times> metrics" where
  "enqueue_dlq svc db m source_event rsn error_type retryable replay_topic g =
     (let pl = [(''reason'', JStr rsn),
                (''error_type'', JStr error_type),
                (''retryable'', JBool retryable),
                (''source'', JStr svc),
                (''source_event_id'', JStr (event_id source_event))] @
               (case replay_topic of
                  None \<Rightarrow> []
                | Some t \<Rightarrow> [(''replay_topic'', JStr t),
                             (''failed_event'', JObj (model_dump source_event))])
      in (add_outbox db
            (new_outbox g (aggregate_id source_event) ''payments.dlq'' (trace_id source_event) pl),
          inc m ''dlq_published_total'' [svc, ''payments.dlq'', error_type]))"

text \<open>
  \<open>_validate_authorize_payload\<close>. \<open>isinstance(x, int)\<close> holds of a boolean as well, and
  \<open>True <= 0\<close> is false, so \<open>True\<close> passes as an amount.
\<close>

definition validate_authorize_payload :: "EventEnvelope \<Rightarrow> error + string \<times> json \<times> string" where
  "validate_authorize_payload event =
     (let cust = dict_get (payload event) ''customer_id'';
          cur = dict_get (payload event) ''currency'';
          amount = dict_get (payload event) ''amount_cents''
      in case cust of
           JStr c \<Rightarrow>
             (if c = [] then Inl (ValueError ''invalid customer_id'')
              else case cur of
                JStr u \<Rightarrow>
                  (if length u \<noteq> 3 then Inl (ValueError ''invalid currency'')
                   else case amount of
                     JInt n \<Rightarrow> (if n \<le> 0 then Inl (ValueError ''invalid amount_cents'')
                                else Inr (c, amount, u))
                   | JBool b \<Rightarrow> (if \<not> b then Inl (ValueError ''invalid amount_cents'')
                                 else Inr (c, amount, u))
                   | _ \<Rightarrow> Inl (ValueError ''invalid amount_cents''))
              | _ \<Rightarrow> Inl (ValueError ''invalid currency''))
         | _ \<Rightarrow> Inl (ValueError ''invalid customer_id''))"

text \<open>
  The attempt loop of \<open>handle_authorize_request\<close>, over the attempt numbers still to
  run. \<open>draw k\<close> is what \<open>random.choices\<close> returns at attempt \<open>k\<close> and \<open>latency k\<close> the
  latency measured there. The state carries the database, the counters and the list of
  back-off waits slept so far, in seconds. The result says whether the handler returned
  from inside the loop, and gives \<open>last_error\<close>.
\<close>

type_synonym prov_world = "prov_db \<times> metrics \<times> int list"

fun attempt_loop ::
  "string \<Rightarrow> EventEnvelope \<Rightarrow> bool \<Rightarrow> bool \<Rightarrow> (int \<Rightarrow> string) \<Rightarrow> (int \<Rightarrow> int) \<Rightarrow> fresh
     \<Rightarrow> int list \<Rightarrow> string \<Rightarrow> prov_world \<Rightarrow> bool \<times> string \<times> prov_world" where
  "attempt_loop svc event force_timeout force_decline draw latency g [] last_error w =
     (False, last_error, w)"
| "attempt_loop svc event force_timeout force_decline draw latency g (attempt # rest) last_error w =
     (let outcome = (if force_timeout then ''TIMEOUT''
                     else if force_decline then ''DECLINE''
                     else draw attempt);
          latency_ms = latency attempt;
          db = fst w; m = fst (snd w); slept = snd (snd w)
      in if outcome = ''SUCCESS'' then
           (True, last_error,
            (add_outbox
               (db\<lparr>provider_attempts := provider_attempts db @
                      [\<lparr>pv_payment_id = aggregate_id event,
                        pv_attempt_number = attempt,
                        pv_result = ''AUTHORIZED'',
                        pv_latency_ms = latency_ms,
                        pv_error_code = None\<rparr>]\<rparr>)
               (new_outbox g (aggregate_id event) ''payments.authorized'' (trace_id event)
                  [(''attempt_number'', JInt attempt), (''latency_ms'', JInt latency_ms)]),
             m, slept))
         else if outcome = ''DECLINE'' then
           (True, ''PROVIDER_DECLINE'',
            (add_outbox
               (db\<lparr>provider_attempts := provider_attempts db @
                      [\<lparr>pv_payment_id = aggregate_id event,
                        pv_attempt_number = attempt,
                        pv_result = ''FAILED'',
                        pv_latency_ms = latency_ms,
                        pv_error_code = Some ''PROVIDER_DECLINE''\<rparr>]\<rparr>)
               (new_outbox g (aggregate_id event) ''payments.failed'' (trace_id event)
                  [(''attempt_number'', JInt attempt),
                   (''latency_ms'', JInt latency_ms),
                   (''error_code'', JStr ''PROVIDER_DECLINE'')]),
             m, slept))
         else
           attempt_loop svc event force_timeout force_decline draw latency g rest
             ''PROVIDER_TIMEOUT''
             (db, inc m ''retries_total'' [svc, ''provider''],
              slept @ [2 ^ nat (attempt - 1)]))"

text \<open>
  \<open>handle_authorize_request\<close>. \<open>g1\<close> serves the first outbox row that the handler
  writes and \<open>g2\<close> the second. The inbox row is committed before the attempts start.
\<close>

definition handle_authorize_request ::
  "string \<Rightarrow> prov_db \<Rightarrow> metrics \<Rightarrow> EventEnvelope \<Rightarrow> (int \<Rightarrow> string) \<Rightarrow> (int \<Rightarrow> int)
     \<Rightarrow> fresh \<Rightarrow> fresh \<Rightarrow> error + prov_world" where
  "handle_authorize_request svc db m event draw latency g1 g2 =
     seq (inbox_seen svc db (event_id event))
       (\<lambda>seen.
          if seen
          then Inr (db, record_duplicate_skip svc m ''provider.authorize.requested'', [])
          else
            (let db1 = mark_inbox svc db (event_id event)
             in case validate_authorize_payload event of
                  Inl (ValueError msg) \<Rightarrow>
                    (let (db2, m2) = enqueue_dlq svc db1 m event msg ''NON_RETRYABLE'' False None g1
                     in Inr (db2, m2, []))
                | Inl e \<Rightarrow> Inl e
                | Inr (cust, _, _) \<Rightarrow>
                    (let max_retries = 3;
                         force_timeout = startswith (py_lower cust) ''force-timeout'';
                         force_decline = startswith (py_lower cust) ''force-decline'';
                         (returned, last_error, db2, m2, slept) =
                            attempt_loop svc event force_timeout force_decline draw latency g1
                              [1 ..  max_retries] ''UNKNOWN'' (db1, m, [])
                     in if returned then Inr (db2, m2, slept)
                        else
                          (let db3 = add_outbox db2
                                       (new_outbox g1 (aggregate_id event) ''payments.failed''
                                          (trace_id event)
                                          [(''attempt_number'', JInt max_retries),
                                           (''latency_ms'', JInt 0),
                                           (''error_code'', JStr last_error)]);
                               (db4, m4) = enqueue_dlq svc db3 m2 event last_error
                                             ''RETRY_EXHAUSTED'' True
                                             (Some ''provider.authorize.requested'') g2
                           in Inr (db4, m4, slept)))))"

section \<open>Ledger (\<open>services/ledger\<close>)\<close>

record Account =
  account_id :: string
  account_type :: string
  balance_cents :: int

record LedgerEntry =
  transaction_id :: string
  le_account_id :: string
  direction :: string
  le_amount_cents :: int

record ledger_db = svc_db +
  accounts :: "Account list"
  ledger_entries :: "LedgerEntry list"

text \<open>
  The session is created with \<open>autoflush=False\<close>: a row handed to \<open>db.add\<close> is pending
  until the commit, and a \<open>SELECT\<close> issued before the commit does not see it. A ledger
  session is the database together with the pending ledger entries. A change to an
  \<open>Account\<close> object is seen by every later \<open>db.get\<close> of the same session, so it is
  applied to the row at once. The commit writes the pending entries and the changed
  balances; it is refused with \<open>DataError\<close> when an amount or a new balance of one of
  the two accounts does not fit its \<open>INTEGER\<close> column.
\<close>

type_synonym ledger_session = "ledger_db \<times> LedgerEntry list"

definition post_entry ::
  "ledger_session \<Rightarrow> string \<Rightarrow> string \<Rightarrow> string \<Rightarrow> int \<Rightarrow> error + ledger_session" where
  "post_entry sess tx_id acct dir amount =
     (let db = fst sess;
          pending = snd sess @
            [\<lparr>transaction_id = tx_id, le_account_id = acct, direction = dir,
              le_amount_cents = amount\<rparr>]
      in case find (\<lambda>a. account_id a = acct) (accounts db) of
           None \<Rightarrow> Inl AttributeError
         | Some account \<Rightarrow>
             Inr (db\<lparr>accounts :=
                       map (\<lambda>a. if account_id a = acct
                                 then a\<lparr>balance_cents :=
                                          (if dir = ''DEBIT'' then balance_cents account - amount
                                           else balance_cents account + amount)\<rparr>
                                 else a) (accounts db)\<rparr>,
                  pending))"

definition debit_sum :: "LedgerEntry list \<Rightarrow> int" where
  "debit_sum es = sum_list (map le_amount_cents (filter (\<lambda>e. direction e = ''DEBIT'') es))"

definition credit_sum :: "LedgerEntry list \<Rightarrow> int" where
  "credit_sum es = sum_list (map le_amount_cents (filter (\<lambda>e. direction e = ''CREDIT'') es))"

definition handle_captured ::
  "string \<Rightarrow> ledger_db \<Rightarrow> metrics \<Rightarrow> EventEnvelope \<Rightarrow> fresh \<Rightarrow> error + ledger_db \<times> metrics" where
  "handle_captured svc db m event g =
     seq (inbox_seen svc db (event_id event))
       (\<lambda>seen.
          if seen then Inr (db, record_duplicate_skip svc m ''payments.captured'')
          else
            seq (dict_item (payload event) ''amount_cents'') (\<lambda>v.
            seq (py_int v) (\<lambda>amount.
              let tx_id = ''settlement:'' @ aggregate_id event
              in seq (post_entry (db, []) tx_id ''customer_cash'' ''DEBIT'' amount) (\<lambda>sess1.
                 seq (post_entry sess1 tx_id ''merchant_receivable'' ''CREDIT'' amount) (\<lambda>sess2.
                   let tx_entries = filter (\<lambda>e. transaction_id e = tx_id)
                                      (ledger_entries (fst sess2));
                       debits = debit_sum tx_entries;
                       credits = credit_sum tx_entries
                   in if debits \<noteq> credits then Inl LedgerImbalance
                      else if \<not> list_all (\<lambda>e. int4 (le_amount_cents e)) (snd sess2)
                              \<or> \<not> list_all (\<lambda>a. int4 (balance_cents a))
                                     (filter (\<lambda>a. account_id a = ''customer_cash''
                                                  \<or> account_id a = ''merchant_receivable'')
                                        (accounts (fst sess2)))
                      then Inl DataError
                      else
                        (let db1 = mark_inbox svc (fst sess2) (event_id event);
                             db2 = add_outbox db1
                                     (new_outbox g (aggregate_id event) ''payments.settled''
                                        (trace_id event)
                                        [(''transaction_id'', JStr tx_id),
                                         (''amount_cents'', JInt amount)]);
                             db3 = db2\<lparr>ledger_entries := ledger_entries db2 @ snd sess2\<rparr>
                         in Inr (db3, m)))))))"

section \<open>Gateway rate limiter (\<open>services/api_gateway/main.py\<close>)\<close>

text \<open>
  The bucket of a customer is a hash with the fields \<open>tokens\<close> and \<open>updated_at\<close>, written
  together and given a time-to-live of 120 seconds at each write; a hash whose
  time-to-live has passed reads as absent. Python's floats are taken as real numbers,
  and \<open>now\<close> is the reading of \<open>time()\<close>.
\<close>

record bucket =
  tokens :: real
  updated_at :: real
  expires_at :: real

datatype http_error = HTTPException nat string

definition enforce_token_bucket ::
  "CommonSettings \<Rightarrow> (string \<rightharpoonup> bucket) \<Rightarrow> string \<Rightarrow> real
     \<Rightarrow> (http_error + unit) \<times> (string \<rightharpoonup> bucket)" where
  "enforce_token_bucket cfg store cust now =
     (let key = ''tokenbucket:'' @ cust;
          capacity = real_of_int (rate_limit_per_minute cfg);
          refill_per_sec = capacity / 60;
          vals = (case store key of
                    None \<Rightarrow> None
                  | Some b \<Rightarrow> if now < expires_at b then Some b else None);
          tokens0 = (case vals of None \<Rightarrow> capacity | Some b \<Rightarrow> tokens b);
          updated = (case vals of None \<Rightarrow> now | Some b \<Rightarrow> updated_at b);
          elapsed = max 0 (now - updated);
          tokens1 = min capacity (tokens0 + elapsed * refill_per_sec)
      in if tokens1 < 1
         then (Inl (HTTPException 429 ''rate limit exceeded''),
               store(key \<mapsto> \<lparr>tokens = tokens1, updated_at = now, expires_at = now + 120\<rparr>))
         else (Inr (),
               store(key \<mapsto> \<lparr>tokens = tokens1 - 1, updated_at = now, expires_at = now + 120\<rparr>)))"

text \<open>
  The limiter as the specification words it, with the capacity and the refill rate both
  \<open>rate_limit_per_minute/60\<close>; everything else as in \<open>enforce_token_bucket\<close>. It is here
  to be compared with the code.
\<close>

definition enforce_token_bucket_as_claimed ::
  "CommonSettings \<Rightarrow> (string \<rightharpoonup> bucket) \<Rightarrow> string \<Rightarrow> real
     \<Rightarrow> (http_error + unit) \<times> (string \<rightharpoonup> bucket)" where
  "enforce_token_bucket_as_claimed cfg store cust now =
     (let key = ''tokenbucket:'' @ cust;
          capacity = real_of_int (rate_limit_per_minute cfg) / 60;
          refill_per_sec = real_of_int (rate_limit_per_minute cfg) / 60;
          vals = (case store key of
                    None \<Rightarrow> None
                  | Some b \<Rightarrow> if now < expires_at b then Some b else None);
          tokens0 = (case vals of None \<Rightarrow> capacity | Some b \<Rightarrow> tokens b);
          updated = (case vals of None \<Rightarrow> now | Some b \<Rightarrow> updated_at b);
          elapsed = max 0 (now - updated);
          tokens1 = min capacity (tokens0 + elapsed * refill_per_sec)
      in if tokens1 < 1
         then (Inl (HTTPException 429 ''rate limit exceeded''),
               store(key \<mapsto> \<lparr>tokens = tokens1, updated_at = now, expires_at = now + 120\<rparr>))
         else (Inr (),
               store(key \<mapsto> \<lparr>tokens = tokens1 - 1, updated_at = now, expires_at = now + 120\<rparr>)))"

text \<open>
  The tokens that \<open>enforce_token_bucket\<close> finds available to a request: the stored tokens
  refilled for the time elapsed and capped at the capacity, or the full capacity for a
  customer without a live bucket.
\<close>

definition available_tokens :: "CommonSettings \<Rightarrow> (string \<rightharpoonup> bucket) \<Rightarrow> string \<Rightarrow> real \<Rightarrow> real" where
  "available_tokens cfg store cust now =
     (let capacity = real_of_int (rate_limit_per_minute cfg)
      in case store (''tokenbucket:'' @ cust) of
           None \<Rightarrow> capacity
         | Some b \<Rightarrow>
             if now < expires_at b
             then min capacity (tokens b + max 0 (now - updated_at b) * (capacity / 60))
             else capacity)"

section \<open>Sample data\<close>

text \<open>Concrete rows and events at which the theorems below are instantiated.\<close>

definition sample_row :: "string \<Rightarrow> string \<Rightarrow> OutboxEvent" where
  "sample_row i st =
     \<lparr>ob_id = i, ob_aggregate_type = ''payment'', ob_aggregate_id = ''pay-1'',
      ob_event_type = ''payments.requested'', ob_topic = ''payments.requested'',
      ob_payload = [], ob_status = st, ob_sent_at = None\<rparr>"

definition sample_outbox :: "OutboxEvent list" where
  "sample_outbox =
     [sample_row ''a'' ''PENDING'', sample_row ''a'' ''SENT'',
      sample_row ''a'' ''PROCESSING'', sample_row ''b'' ''PROCESSING'']"

section \<open>Payment histories\<close>

text \<open>
  The audit rows of one payment, in the order they were written, and what it means for
  them to chain: each row starts in the state that the row before it ended in.
\<close>

definition timeline_of :: "orch_db \<Rightarrow> string \<Rightarrow> PaymentTimeline list" where
  "timeline_of db pid = filter (\<lambda>r. pt_payment_id r = pid) (payment_timeline db)"

fun contiguous :: "PaymentTimeline list \<Rightarrow> bool" where
  "contiguous [] = True"
| "contiguous [r] = True"
| "contiguous (r # r' # rs) = (from_state r' = Some (to_state r) \<and> contiguous (r' # rs))"

text \<open>
  A history of a payment is the list of transitions requested for it, each with its
  target state, reason and event id. A request that \<open>transition\<close> refuses raises in its
  handler, whose transaction is rolled back: database and payment stay as they were.
  The third component of the result counts the transitions that succeeded.
\<close>

fun apply_transitions ::
  "orch_db \<Rightarrow> Payment \<Rightarrow> (string \<times> string \<times> string option) list \<Rightarrow> orch_db \<times> Payment \<times> nat" where
  "apply_transitions db p [] = (db, p, 0)"
| "apply_transitions db p ((new_status, rsn, eid) # rest) =
     (case transition db p new_status rsn eid of
        Inl e \<Rightarrow> apply_transitions db p rest
      | Inr (db1, p1) \<Rightarrow>
          (case apply_transitions db1 p1 rest of (db2, p2, n) \<Rightarrow> (db2, p2, Suc n)))"

text \<open>The edges of the transition table, as pairs.\<close>

definition table_edges :: "(string \<times> string) set" where
  "table_edges =
     {(''CREATED'', ''RISK_REVIEW''), (''CREATED'', ''APPROVED''), (''CREATED'', ''FAILED''),
      (''RISK_REVIEW'', ''APPROVED''), (''RISK_REVIEW'', ''FAILED''),
      (''APPROVED'', ''AUTHORIZED''), (''APPROVED'', ''FAILED''),
      (''AUTHORIZED'', ''CAPTURED''), (''AUTHORIZED'', ''FAILED''), (''AUTHORIZED'', ''REVERSED''),
      (''CAPTURED'', ''SETTLED''), (''CAPTURED'', ''FAILED''), (''CAPTURED'', ''REVERSED''),
      (''FAILED'', ''REVERSED'')}"

text \<open>
  A payment object is tracked by a database when it is the one stored row with its id
  and the payment's audit rows start with the creation row, chain, end in the payment's
  status and number one more than its \<open>state_version\<close>.
\<close>

definition tracked :: "orch_db \<Rightarrow> Payment \<Rightarrow> bool" where
  "tracked db p =
     (filter (\<lambda>r. payment_id r = payment_id p) (payments db) = [p] \<and>
      (let rows = timeline_of db (payment_id p)
       in rows \<noteq> [] \<and> from_state (hd rows) = None \<and> to_state (hd rows) = ''CREATED'' \<and>
          contiguous rows \<and> to_state (last rows) = status p \<and>
          int (length rows) = state_version p + 1 \<and>
          (\<forall>r \<in> set (tl rows). \<exists>f. from_state r = Some f \<and> (f, to_state r) \<in> table_edges)))"

definition sample_db0 :: orch_db where
  "sample_db0 =
     \<lparr>outbox_events = [], inbox_events = [], payments = [], payment_attempts = [],
      payment_timeline = []\<rparr>"

definition sample_req :: PaymentCreateRequest where
  "sample_req =
     \<lparr>req_customer_id = ''cust-1'', req_amount_cents = 5000, req_currency = ''usd'',
      req_idempotency_key = ''key-00001''\<rparr>"

definition sample_fresh :: fresh where
  "sample_fresh =
     \<lparr>new_row_id = ''row-1'', new_event_id = ''evt-1'', new_occurred_at = ''2026-01-01T00:00:00''\<rparr>"

definition sample_payment :: "string \<Rightarrow> int \<Rightarrow> Payment" where
  "sample_payment st v =
     \<lparr>payment_id = ''pay-1'', customer_id = ''cust-1'', amount_cents = 5000,
      currency = ''USD'', status = st, state_version = v, idempotency_key = ''key-00001''\<rparr>"

definition sample_step :: "string option \<Rightarrow> string \<Rightarrow> string \<Rightarrow> string option \<Rightarrow> PaymentTimeline" where
  "sample_step f t rsn eid =
     \<lparr>pt_payment_id = ''pay-1'', from_state = f, to_state = t, reason = rsn, pt_event_id = eid\<rparr>"

definition sample_requested :: OutboxEvent where
  "sample_requested =
     new_outbox sample_fresh ''pay-1'' ''payments.requested'' ''trace-1''
       [(''customer_id'', JStr ''cust-1''), (''amount_cents'', JInt 5000),
        (''currency'', JStr ''USD'')]"

text \<open>The orchestrator database holding the sample payment in a given state.\<close>

definition sample_db :: "string \<Rightarrow> int \<Rightarrow> PaymentTimeline list \<Rightarrow> orch_db" where
  "sample_db st v steps =
     \<lparr>outbox_events = [sample_requested], inbox_events = [],
      payments = [sample_payment st v], payment_attempts = [],
      payment_timeline = sample_step None ''CREATED'' ''payment_created'' None # steps\<rparr>"

definition sample_history :: "(string \<times> string \<times> string option) list" where
  "sample_history =
     [(''SETTLED'', ''ledger_settled'', Some ''e0''),
      (''APPROVED'', ''risk_approved'', Some ''e1''),
      (''AUTHORIZED'', ''provider_authorized'', Some ''e2'')]"


definition sample_fresh2 :: fresh where
  "sample_fresh2 =
     \<lparr>new_row_id = ''row-2'', new_event_id = ''evt-2'', new_occurred_at = ''2026-01-01T00:00:05''\<rparr>"

definition sample_metrics :: metrics where
  "sample_metrics = (\<lambda>_. 0)"

definition sample_authorized :: EventEnvelope where
  "sample_authorized =
     \<lparr>event_id = ''e2'', event_type = ''payments.authorized'', aggregate_id = ''pay-1'',
      occurred_at = ''2026-01-01T00:00:03'', trace_id = ''trace-1'',
      payload = [(''attempt_number'', JInt 2), (''latency_ms'', JInt 0)]\<rparr>"

definition sample_approved_db :: orch_db where
  "sample_approved_db =
     sample_db ''APPROVED'' 1
       [sample_step (Some ''CREATED'') ''APPROVED'' ''risk_approved'' (Some ''e1'')]"

definition sample_settled_db :: orch_db where
  "sample_settled_db =
     sample_db ''SETTLED'' 4
       [sample_step (Some ''CREATED'') ''APPROVED'' ''risk_approved'' (Some ''e1''),
        sample_step (Some ''APPROVED'') ''AUTHORIZED'' ''provider_authorized'' (Some ''e2''),
        sample_step (Some ''AUTHORIZED'') ''CAPTURED'' ''capture_requested'' (Some ''e2''),
        sample_step (Some ''CAPTURED'') ''SETTLED'' ''ledger_settled'' (Some ''e4'')]"

definition sample_failed_timeout :: EventEnvelope where
  "sample_failed_timeout =
     \<lparr>event_id = ''e3'', event_type = ''payments.failed'', aggregate_id = ''pay-1'',
      occurred_at = ''2026-01-01T00:00:10'', trace_id = ''trace-1'',
      payload = [(''attempt_number'', JInt 3), (''latency_ms'', JInt 0),
                 (''error_code'', JStr ''PROVIDER_TIMEOUT'')]\<rparr>"

definition sample_failed_decline :: EventEnvelope where
  "sample_failed_decline =
     \<lparr>event_id = ''e9'', event_type = ''payments.failed'', aggregate_id = ''pay-1'',
      occurred_at = ''2026-01-01T00:00:20'', trace_id = ''trace-1'',
      payload = [(''attempt_number'', JInt 1), (''latency_ms'', JInt 0),
                 (''error_code'', JStr ''PROVIDER_DECLINE'')]\<rparr>"

definition sample_redis :: redis where
  "sample_redis = \<lparr>r_val = Map.empty, r_ttl = Map.empty\<rparr>"

definition sample_risk_db :: risk_db where
  "sample_risk_db = \<lparr>outbox_events = [], inbox_events = [], risk_reviews = []\<rparr>"

definition sample_payment_requested :: EventEnvelope where
  "sample_payment_requested =
     \<lparr>event_id = ''evt-1'', event_type = ''payments.requested'', aggregate_id = ''pay-1'',
      occurred_at = ''2026-01-01T00:00:00'', trace_id = ''trace-1'',
      payload = [(''customer_id'', JStr ''cust-1''), (''amount_cents'', JInt 200000),
                 (''currency'', JStr ''USD'')]\<rparr>"

definition sample_prov_db :: prov_db where
  "sample_prov_db = \<lparr>outbox_events = [], inbox_events = [], provider_attempts = []\<rparr>"

definition sample_authorize_request :: EventEnvelope where
  "sample_authorize_request =
     \<lparr>event_id = ''e5'', event_type = ''provider.authorize.requested'',
      aggregate_id = ''pay-1'', occurred_at = ''2026-01-01T00:00:02'', trace_id = ''trace-1'',
      payload = [(''amount_cents'', JInt 5000), (''currency'', JStr ''USD''),
                 (''customer_id'', JStr ''Force-Timeout-A'')]\<rparr>"

definition sample_account :: "string \<Rightarrow> string \<Rightarrow> Account" where
  "sample_account i t = \<lparr>account_id = i, account_type = t, balance_cents = 0\<rparr>"

definition sample_ledger_db :: ledger_db where
  "sample_ledger_db =
     \<lparr>outbox_events = [], inbox_events = [],
      accounts = [sample_account ''customer_cash'' ''CUSTOMER'',
                  sample_account ''merchant_receivable'' ''MERCHANT'',
                  sample_account ''platform_fee'' ''PLATFORM'',
                  sample_account ''clearing'' ''CLEARING''],
      ledger_entries = []\<rparr>"


definition sample_captured :: EventEnvelope where
  "sample_captured =
     \<lparr>event_id = ''e6'', event_type = ''payments.captured'', aggregate_id = ''pay-1'',
      occurred_at = ''2026-01-01T00:00:04'', trace_id = ''trace-1'',
      payload = [(''amount_cents'', JInt 5000), (''currency'', JStr ''USD''),
                 (''customer_id'', JStr ''cust-1'')]\<rparr>"

definition sample_buckets :: "string \<rightharpoonup> bucket" where
  "sample_buckets =
     [''tokenbucket:cust-1'' \<mapsto> \<lparr>tokens = 2 / 10, updated_at = 10, expires_at = 130\<rparr>]"

definition sample_captured_db :: orch_db where
  "sample_captured_db =
     sample_db ''CAPTURED'' 3
       [sample_step (Some ''CREATED'') ''APPROVED'' ''risk_approved'' (Some ''e1''),
        sample_step (Some ''APPROVED'') ''AUTHORIZED'' ''provider_authorized'' (Some ''e2''),
        sample_step (Some ''AUTHORIZED'') ''CAPTURED'' ''capture_requested'' (Some ''e2'')]"

text \<open>Databases whose inbox already holds the sample event of their service.\<close>

definition sample_seen_db :: orch_db where
  "sample_seen_db = sample_captured_db\<lparr>inbox_events := [(''e2'', ''orchestrator'')]\<rparr>"

definition sample_seen_risk_db :: risk_db where
  "sample_seen_risk_db = sample_risk_db\<lparr>inbox_events := [(''evt-1'', ''risk'')]\<rparr>"

definition sample_seen_prov_db :: prov_db where
  "sample_seen_prov_db = sample_prov_db\<lparr>inbox_events := [(''e5'', ''provider-adapter'')]\<rparr>"

definition sample_seen_ledger_db :: ledger_db where
  "sample_seen_ledger_db = sample_ledger_db\<lparr>inbox_events := [(''e6'', ''ledger'')]\<rparr>"

definition sample_settled_event :: EventEnvelope where
  "sample_settled_event =
     \<lparr>event_id = ''e4'', event_type = ''payments.settled'', aggregate_id = ''pay-1'',
      occurred_at = ''2026-01-01T00:00:06'', trace_id = ''trace-1'',
      payload = [(''transaction_id'', JStr ''settlement:pay-1''), (''amount_cents'', JInt 5000)]\<rparr>"


definition sample_failed_null :: EventEnvelope where
  "sample_failed_null =
     \<lparr>event_id = ''e3'', event_type = ''payments.failed'', aggregate_id = ''pay-1'',
      occurred_at = ''2026-01-01T00:00:10'', trace_id = ''trace-1'',
      payload = [(''attempt_number'', JNull), (''latency_ms'', JInt 0),
                 (''error_code'', JStr ''PROVIDER_DECLINE'')]\<rparr>"


text \<open>A provider that would authorize every attempt at once.\<close>

definition sample_draw :: "int \<Rightarrow> string" where
  "sample_draw attempt = ''SUCCESS''"

definition sample_latency :: "int \<Rightarrow> int" where
  "sample_latency attempt = 0"


section \<open>Outbox frame property\<close>

text \<open>
  C10. \<open>mark_outbox_sent\<close> and \<open>requeue_outbox_event\<close> keep the number and order of the
  outbox rows, and every row whose status is not \<open>PROCESSING\<close>, or whose id is not the
  one given, is left exactly as it was by both operations. In particular a \<open>SENT\<close> row
  is never turned back to \<open>PENDING\<close> and a \<open>PENDING\<close> row is never turned to \<open>SENT\<close>.
\<close>

theorem outbox_mark_requeue_frame:
  "length (mark_outbox_sent now tbl eid) = length tbl \<and>
   length (requeue_outbox_event tbl eid) = length tbl \<and>
   (\<forall>i < length tbl.
      (ob_status (tbl ! i) \<noteq> ''PROCESSING'' \<or> ob_id (tbl ! i) \<noteq> eid) \<longrightarrow>
        mark_outbox_sent now tbl eid ! i = tbl ! i \<and>
        requeue_outbox_event tbl eid ! i = tbl ! i) \<and>
   (\<forall>i < length tbl.
      ob_status (tbl ! i) = ''SENT'' \<longrightarrow>
        ob_status (requeue_outbox_event tbl eid ! i) = ''SENT'') \<and>
   (\<forall>i < length tbl.
      ob_status (tbl ! i) = ''PENDING'' \<longrightarrow>
        ob_status (mark_outbox_sent now tbl eid ! i) = ''PENDING'')"
  by (simp add: mark_outbox_sent_def requeue_outbox_event_def)

theorem outbox_mark_requeue_frame_witness:
  "(1::nat) < length sample_outbox \<and>
   ob_status (sample_outbox ! 1) = ''SENT'' \<and>
   ob_id (sample_outbox ! 1) = ''a'' \<and>
   mark_outbox_sent 7 sample_outbox ''a'' ! 1 = sample_outbox ! 1 \<and>
   requeue_outbox_event sample_outbox ''a'' ! 1 = sample_outbox ! 1 \<and>
   ob_status (requeue_outbox_event sample_outbox ''a'' ! 1) = ''SENT'' \<and>
   (0::nat) < length sample_outbox \<and>
   ob_status (sample_outbox ! 0) = ''PENDING'' \<and>
   ob_status (mark_outbox_sent 7 sample_outbox ''a'' ! 0) = ''PENDING'' \<and>
   (3::nat) < length sample_outbox \<and>
   ob_status (sample_outbox ! 3) = ''PROCESSING'' \<and>
   ob_id (sample_outbox ! 3) \<noteq> ''a'' \<and>
   mark_outbox_sent 7 sample_outbox ''a'' ! 3 = sample_outbox ! 3"
proof -
  have len: "length sample_outbox = 4"
    by (simp add: sample_outbox_def)
  have rows: "ob_status (sample_outbox ! 1) = ''SENT''" "ob_id (sample_outbox ! 1) = ''a''"
    "ob_status (sample_outbox ! 0) = ''PENDING''"
    "ob_status (sample_outbox ! 3) = ''PROCESSING''" "ob_id (sample_outbox ! 3) \<noteq> ''a''"
    by (simp_all add: sample_outbox_def sample_row_def)
  note frame = outbox_mark_requeue_frame [of 7 sample_outbox "''a''"]
  have a: "mark_outbox_sent 7 sample_outbox ''a'' ! 1 = sample_outbox ! 1 \<and>
           requeue_outbox_event sample_outbox ''a'' ! 1 = sample_outbox ! 1"
    using frame len rows by simp
  have b: "ob_status (requeue_outbox_event sample_outbox ''a'' ! 1) = ''SENT''"
    using frame len rows by simp
  have c: "ob_status (mark_outbox_sent 7 sample_outbox ''a'' ! 0) = ''PENDING''"
    using frame len rows by simp
  have d: "mark_outbox_sent 7 sample_outbox ''a'' ! 3 = sample_outbox ! 3"
    using frame len rows by simp
  show ?thesis using a b c d len rows by simp
qed

section \<open>State machine, audit trail and version counter\<close>

lemma validate_transition_edges:
  "validate_transition c n = Inr () \<longleftrightarrow> (c, n) \<in> table_edges"
  by (auto simp: validate_transition_def allowed_from_def ALLOWED_TRANSITIONS_def table_edges_def
      split: if_splits)

lemma contiguous_snoc:
  "contiguous (rs @ [r]) \<longleftrightarrow> contiguous rs \<and> (rs = [] \<or> from_state r = Some (to_state (last rs)))"
  by (induction rs rule: contiguous.induct) auto

lemma transition_Inr:
  assumes "transition db p new rsn eid = Inr (db', p')"
  shows "(status p, new) \<in> table_edges"
    and "p' = p\<lparr>status := new, state_version := state_version p + 1\<rparr>"
    and "payment_timeline db' = payment_timeline db @
           [\<lparr>pt_payment_id = payment_id p, from_state = Some (status p), to_state = new,
             reason = rsn, pt_event_id = eid\<rparr>]"
    and "payments db' = map (\<lambda>r. if payment_id r = payment_id p \<and> status r = status p
                          \<and> state_version r = state_version p
                        then r\<lparr>status := new, state_version := state_version p + 1\<rparr>
                        else r) (payments db)"
    and "length (filter (\<lambda>r. payment_id r = payment_id p \<and> status r = status p
                          \<and> state_version r = state_version p) (payments db)) = 1"
    and "outbox_events db' = outbox_events db" and "inbox_events db' = inbox_events db"
    and "payment_attempts db' = payment_attempts db"
    and "int4 (state_version p + 1)"
  using assms validate_transition_edges[of "status p" new]
  by (auto simp: transition_def seq_def Let_def split: sum.splits if_splits)


lemma transition_tracked:
  assumes t: "tracked db p" and ok: "transition db p new rsn eid = Inr (db', p')"
  shows "tracked db' p'"
proof -
  note facts = transition_Inr [OF ok]
  let ?f = "\<lambda>r. if payment_id r = payment_id p \<and> status r = status p
                          \<and> state_version r = state_version p
                        then r\<lparr>status := new, state_version := state_version p + 1\<rparr>
                        else r"
  have one: "filter (\<lambda>r. payment_id r = payment_id p) (payments db) = [p]"
    using t by (simp add: tracked_def)
  have "filter (\<lambda>r. payment_id r = payment_id p') (payments db')
          = map ?f (filter (\<lambda>r. payment_id r = payment_id p) (payments db))"
    unfolding facts(4) facts(2) filter_map
    by (rule arg_cong [where f = "map ?f"], rule filter_cong) auto
  then have rows: "filter (\<lambda>r. payment_id r = payment_id p') (payments db') = [p']"
    using one facts(2) by simp
  let ?row = "\<lparr>pt_payment_id = payment_id p, from_state = Some (status p), to_state = new,
             reason = rsn, pt_event_id = eid\<rparr>"
  have tl: "timeline_of db' (payment_id p') = timeline_of db (payment_id p) @ [?row]"
    using facts(2,3) by (simp add: timeline_of_def)
  from t have old: "timeline_of db (payment_id p) \<noteq> []"
    "from_state (hd (timeline_of db (payment_id p))) = None"
    "to_state (hd (timeline_of db (payment_id p))) = ''CREATED''"
    "contiguous (timeline_of db (payment_id p))"
    "to_state (last (timeline_of db (payment_id p))) = status p"
    "int (length (timeline_of db (payment_id p))) = state_version p + 1"
    "\<forall>r \<in> set (tl (timeline_of db (payment_id p))).
        \<exists>f. from_state r = Some f \<and> (f, to_state r) \<in> table_edges"
    by (simp_all add: tracked_def Let_def)
  show ?thesis
    unfolding tracked_def Let_def tl
    using rows old facts(1,2) by (auto simp: contiguous_snoc)
qed

lemma apply_transitions_tracked:
  "tracked db p \<Longrightarrow> apply_transitions db p reqs = (db2, p2, n) \<Longrightarrow>
     tracked db2 p2 \<and> payment_id p2 = payment_id p \<and>
     state_version p2 = state_version p + int n"
proof (induction reqs arbitrary: db p n)
  case Nil
  then show ?case by simp
next
  case (Cons rq reqs)
  obtain new rsn eid where rq: "rq = (new, rsn, eid)" by (cases rq) auto
  show ?case
  proof (cases "transition db p new rsn eid")
    case (Inl e)
    with Cons rq show ?thesis by simp
  next
    case (Inr r)
    obtain db1 p1 where r: "r = (db1, p1)" by (cases r) auto
    obtain n' where n': "apply_transitions db1 p1 reqs = (db2, p2, n')" "n = Suc n'"
      using Cons.prems(2) rq Inr r by (auto split: prod.splits)
    have t1: "tracked db1 p1" using transition_tracked Cons.prems(1) Inr r by blast
    have p1: "p1 = p\<lparr>status := new, state_version := state_version p + 1\<rparr>"
      using transition_Inr(2) Inr r by blast
    from Cons.IH [OF t1 n'(1)] p1 n'(2) show ?thesis by simp
  qed
qed

lemma create_payment_new:
  assumes "create_payment db req trace pid g = Inr (db1, p)"
    and "req_idempotency_key req \<notin> idempotency_key ` set (payments db)"
  shows "p = \<lparr>payment_id = pid, customer_id = req_customer_id req,
               amount_cents = req_amount_cents req, currency = py_upper (req_currency req),
               status = ''CREATED'', state_version = 0,
               idempotency_key = req_idempotency_key req\<rparr>"
    and "pid \<notin> payment_id ` set (payments db)"
    and "payments db1 = payments db @ [p]"
    and "payment_timeline db1 = payment_timeline db @
           [\<lparr>pt_payment_id = pid, from_state = None, to_state = ''CREATED'',
             reason = ''payment_created'', pt_event_id = None\<rparr>]"
    and "outbox_events db1 = outbox_events db @
           [new_outbox g pid ''payments.requested'' trace
              [(''customer_id'', JStr (req_customer_id req)),
               (''amount_cents'', JInt (req_amount_cents req)),
               (''currency'', JStr (py_upper (req_currency req)))]]"
    and "inbox_events db1 = inbox_events db"
    and "payment_attempts db1 = payment_attempts db"
proof -
  have none: "filter (\<lambda>r. idempotency_key r = req_idempotency_key req) (payments db) = []"
    unfolding filter_empty_conv using assms(2) by (metis image_eqI)
  show "p = \<lparr>payment_id = pid, customer_id = req_customer_id req,
               amount_cents = req_amount_cents req, currency = py_upper (req_currency req),
               status = ''CREATED'', state_version = 0,
               idempotency_key = req_idempotency_key req\<rparr>"
    and "pid \<notin> payment_id ` set (payments db)"
    and "payments db1 = payments db @ [p]"
    and "payment_timeline db1 = payment_timeline db @
           [\<lparr>pt_payment_id = pid, from_state = None, to_state = ''CREATED'',
             reason = ''payment_created'', pt_event_id = None\<rparr>]"
    and "outbox_events db1 = outbox_events db @
           [new_outbox g pid ''payments.requested'' trace
              [(''customer_id'', JStr (req_customer_id req)),
               (''amount_cents'', JInt (req_amount_cents req)),
               (''currency'', JStr (py_upper (req_currency req)))]]"
    and "inbox_events db1 = inbox_events db"
    and "payment_attempts db1 = payment_attempts db"
    using assms(1) none
    by (auto simp: create_payment_def seq_def scalar_one_or_none_def Let_def add_outbox_def
        split: if_splits)
qed

lemma create_payment_tracked:
  assumes c: "create_payment db req trace pid g = Inr (db1, p)"
    and k: "req_idempotency_key req \<notin> idempotency_key ` set (payments db)"
    and f: "timeline_of db pid = []"
  shows "tracked db1 p"
proof -
  note facts = create_payment_new [OF c k]
  have "filter (\<lambda>r. payment_id r = pid) (payments db) = []"
    unfolding filter_empty_conv using facts(2) by (metis image_eqI)
  then have rows: "filter (\<lambda>r. payment_id r = payment_id p) (payments db1) = [p]"
    using facts(1,3) by simp
  have "timeline_of db1 (payment_id p) =
          [\<lparr>pt_payment_id = pid, from_state = None, to_state = ''CREATED'',
             reason = ''payment_created'', pt_event_id = None\<rparr>]"
    using f facts(1,4) by (simp add: timeline_of_def)
  then show ?thesis using rows facts(1) by (simp add: tracked_def)
qed

text \<open>
  C1. Whenever \<open>transition\<close> succeeds it moves along an edge of the transition table, so
  never out of \<open>SETTLED\<close> or \<open>REVERSED\<close>; it adds exactly 1 to \<open>state_version\<close> and
  appends exactly one audit row, whose \<open>from_state\<close> is the status before. Hence, for a
  payment made by \<open>create_payment\<close> and any history of transition requests after it, the
  final \<open>state_version\<close> is the number of transitions that succeeded, the payment has
  one audit row more than that, the rows chain from the creation row to the final
  status along edges of the table, and the stored row is the payment as last updated.
\<close>

theorem transition_history_chain:
  "(transition db p new rsn eid = Inr (db', p') \<longrightarrow>
      (status p, new) \<in> table_edges \<and> status p \<noteq> ''SETTLED'' \<and> status p \<noteq> ''REVERSED'' \<and>
      status p' = new \<and> state_version p' = state_version p + 1 \<and>
      payment_timeline db' = payment_timeline db @
        [\<lparr>pt_payment_id = payment_id p, from_state = Some (status p), to_state = new,
          reason = rsn, pt_event_id = eid\<rparr>]) \<and>
   (create_payment db0 req trace pid g = Inr (db1, q) \<and>
    req_idempotency_key req \<notin> idempotency_key ` set (payments db0) \<and>
    timeline_of db0 pid = [] \<and>
    apply_transitions db1 q reqs = (db2, q2, n) \<longrightarrow>
      state_version q2 = int n \<and>
      length (timeline_of db2 pid) = n + 1 \<and>
      from_state (hd (timeline_of db2 pid)) = None \<and>
      to_state (hd (timeline_of db2 pid)) = ''CREATED'' \<and>
      contiguous (timeline_of db2 pid) \<and>
      to_state (last (timeline_of db2 pid)) = status q2 \<and>
      (\<forall>r \<in> set (tl (timeline_of db2 pid)).
          \<exists>f. from_state r = Some f \<and> (f, to_state r) \<in> table_edges) \<and>
      filter (\<lambda>r. payment_id r = pid) (payments db2) = [q2])"
proof (intro conjI impI)
  assume ok: "transition db p new rsn eid = Inr (db', p')"
  note facts = transition_Inr [OF ok]
  show "(status p, new) \<in> table_edges" by (rule facts(1))
  show "status p \<noteq> ''SETTLED''" using facts(1) by (auto simp: table_edges_def)
  show "status p \<noteq> ''REVERSED''" using facts(1) by (auto simp: table_edges_def)
  show "status p' = new" using facts(2) by simp
  show "state_version p' = state_version p + 1" using facts(2) by simp
  show "payment_timeline db' = payment_timeline db @
        [\<lparr>pt_payment_id = payment_id p, from_state = Some (status p), to_state = new,
          reason = rsn, pt_event_id = eid\<rparr>]" by (rule facts(3))
next
  assume h: "create_payment db0 req trace pid g = Inr (db1, q) \<and>
    req_idempotency_key req \<notin> idempotency_key ` set (payments db0) \<and>
    timeline_of db0 pid = [] \<and>
    apply_transitions db1 q reqs = (db2, q2, n)"
  then have c: "create_payment db0 req trace pid g = Inr (db1, q)"
    and k: "req_idempotency_key req \<notin> idempotency_key ` set (payments db0)"
    and f: "timeline_of db0 pid = []"
    and a: "apply_transitions db1 q reqs = (db2, q2, n)" by simp_all
  have q: "payment_id q = pid" "state_version q = 0"
    using create_payment_new(1) [OF c k] by simp_all
  have t1: "tracked db1 q" by (rule create_payment_tracked [OF c k f])
  from apply_transitions_tracked [OF t1 a] q
  have t2: "tracked db2 q2" and id2: "payment_id q2 = pid" and v2: "state_version q2 = int n"
    by simp_all
  from t2 id2 have rows: "timeline_of db2 pid \<noteq> []"
    "from_state (hd (timeline_of db2 pid)) = None"
    "to_state (hd (timeline_of db2 pid)) = ''CREATED''"
    "contiguous (timeline_of db2 pid)"
    "to_state (last (timeline_of db2 pid)) = status q2"
    "int (length (timeline_of db2 pid)) = state_version q2 + 1"
    "\<forall>r \<in> set (tl (timeline_of db2 pid)).
        \<exists>f. from_state r = Some f \<and> (f, to_state r) \<in> table_edges"
    "filter (\<lambda>r. payment_id r = pid) (payments db2) = [q2]"
    by (auto simp: tracked_def Let_def)
  show "state_version q2 = int n" by (rule v2)
  show "length (timeline_of db2 pid) = n + 1" using rows(6) v2 by simp
  show "from_state (hd (timeline_of db2 pid)) = None" by (rule rows(2))
  show "to_state (hd (timeline_of db2 pid)) = ''CREATED''" by (rule rows(3))
  show "contiguous (timeline_of db2 pid)" by (rule rows(4))
  show "to_state (last (timeline_of db2 pid)) = status q2" by (rule rows(5))
  show "\<forall>r \<in> set (tl (timeline_of db2 pid)).
          \<exists>f. from_state r = Some f \<and> (f, to_state r) \<in> table_edges" by (rule rows(7))
  show "filter (\<lambda>r. payment_id r = pid) (payments db2) = [q2]" by (rule rows(8))
qed

lemma py_upper_usd: "py_upper ''usd'' = ''USD''"
  by code_simp

theorem transition_history_chain_witness:
  "transition (sample_db ''CREATED'' 0 []) (sample_payment ''CREATED'' 0) ''APPROVED''
       ''risk_approved'' (Some ''e1'')
     = Inr (sample_db ''APPROVED'' 1
              [sample_step (Some ''CREATED'') ''APPROVED'' ''risk_approved'' (Some ''e1'')],
            sample_payment ''APPROVED'' 1) \<and>
   (''CREATED'', ''APPROVED'') \<in> table_edges \<and>
   create_payment sample_db0 sample_req ''trace-1'' ''pay-1'' sample_fresh
     = Inr (sample_db ''CREATED'' 0 [], sample_payment ''CREATED'' 0) \<and>
   req_idempotency_key sample_req \<notin> idempotency_key ` set (payments sample_db0) \<and>
   timeline_of sample_db0 ''pay-1'' = [] \<and>
   apply_transitions (sample_db ''CREATED'' 0 []) (sample_payment ''CREATED'' 0) sample_history
     = (sample_db ''AUTHORIZED'' 2
          [sample_step (Some ''CREATED'') ''APPROVED'' ''risk_approved'' (Some ''e1''),
           sample_step (Some ''APPROVED'') ''AUTHORIZED'' ''provider_authorized'' (Some ''e2'')],
        sample_payment ''AUTHORIZED'' 2, 2) \<and>
   state_version (sample_payment ''AUTHORIZED'' 2) = 2 \<and>
   contiguous (timeline_of (sample_db ''AUTHORIZED'' 2
          [sample_step (Some ''CREATED'') ''APPROVED'' ''risk_approved'' (Some ''e1''),
           sample_step (Some ''APPROVED'') ''AUTHORIZED'' ''provider_authorized'' (Some ''e2'')])
        ''pay-1'')"
proof -
  let ?s1 = "sample_step (Some ''CREATED'') ''APPROVED'' ''risk_approved'' (Some ''e1'')"
  let ?s2 = "sample_step (Some ''APPROVED'') ''AUTHORIZED'' ''provider_authorized'' (Some ''e2'')"
  have t0: "transition (sample_db ''CREATED'' 0 []) (sample_payment ''CREATED'' 0) ''SETTLED''
              ''ledger_settled'' (Some ''e0'') = Inl (InvalidTransition ''CREATED'' ''SETTLED'')"
    by (simp add: transition_def seq_def validate_transition_def allowed_from_def
        ALLOWED_TRANSITIONS_def sample_db_def sample_payment_def Let_def int4_def)
  have t1: "transition (sample_db ''CREATED'' 0 []) (sample_payment ''CREATED'' 0) ''APPROVED''
              ''risk_approved'' (Some ''e1'')
            = Inr (sample_db ''APPROVED'' 1 [?s1], sample_payment ''APPROVED'' 1)"
    by (simp add: transition_def seq_def validate_transition_def allowed_from_def
        ALLOWED_TRANSITIONS_def sample_db_def sample_payment_def sample_step_def Let_def int4_def)
  have t2: "transition (sample_db ''APPROVED'' 1 [?s1]) (sample_payment ''APPROVED'' 1)
              ''AUTHORIZED'' ''provider_authorized'' (Some ''e2'')
            = Inr (sample_db ''AUTHORIZED'' 2 [?s1, ?s2], sample_payment ''AUTHORIZED'' 2)"
    by (simp add: transition_def seq_def validate_transition_def allowed_from_def
        ALLOWED_TRANSITIONS_def sample_db_def sample_payment_def sample_step_def Let_def int4_def)
  have c: "create_payment sample_db0 sample_req ''trace-1'' ''pay-1'' sample_fresh
            = Inr (sample_db ''CREATED'' 0 [], sample_payment ''CREATED'' 0)"
    by (simp add: create_payment_def seq_def scalar_one_or_none_def sample_db0_def
        sample_req_def sample_db_def sample_payment_def sample_step_def sample_requested_def
        add_outbox_def py_upper_usd Let_def int4_def)
  have k: "req_idempotency_key sample_req \<notin> idempotency_key ` set (payments sample_db0)"
    by (simp add: sample_db0_def)
  have f: "timeline_of sample_db0 ''pay-1'' = []"
    by (simp add: timeline_of_def sample_db0_def)
  have a: "apply_transitions (sample_db ''CREATED'' 0 []) (sample_payment ''CREATED'' 0)
             sample_history
           = (sample_db ''AUTHORIZED'' 2 [?s1, ?s2], sample_payment ''AUTHORIZED'' 2, 2)"
    by (simp add: sample_history_def t0 t1 t2)
  note inst = transition_history_chain
    [of "sample_db ''CREATED'' 0 []" "sample_payment ''CREATED'' 0" "''APPROVED''"
        "''risk_approved''" "Some ''e1''" "sample_db ''APPROVED'' 1 [?s1]"
        "sample_payment ''APPROVED'' 1"
        sample_db0 sample_req "''trace-1''" "''pay-1''" sample_fresh
        "sample_db ''CREATED'' 0 []" "sample_payment ''CREATED'' 0" sample_history
        "sample_db ''AUTHORIZED'' 2 [?s1, ?s2]" "sample_payment ''AUTHORIZED'' 2" 2]
  from inst t1 c k f a show ?thesis
    by (simp add: sample_payment_def)
qed

section \<open>Idempotent payment creation\<close>






section \<open>Orchestrator handlers\<close>

lemma find_of_filter:
  "filter P xs = [x] \<Longrightarrow> find P xs = Some x"
  by (induction xs) (auto split: if_splits)

lemma get_payment_row:
  "filter (\<lambda>r. payment_id r = pid) (payments db) = [p] \<Longrightarrow> get_payment db pid = Some p"
  unfolding get_payment_def by (rule find_of_filter)

lemma filter_single_holds:
  "filter P xs = [x] \<Longrightarrow> P x"
  by (induction xs) (auto split: if_splits)

lemma row_has_id:
  "filter (\<lambda>r. payment_id r = pid) rows = [p] \<Longrightarrow> payment_id p = pid"
  by (drule filter_single_holds) simp

lemma filter_other_rows:
  "filter (\<lambda>r. payment_id r \<noteq> k)
     (map (\<lambda>r. if payment_id r = k \<and> Q r then r\<lparr>status := s, state_version := v\<rparr> else r) xs)
   = filter (\<lambda>r. payment_id r \<noteq> k) xs"
  by (induction xs) auto

lemma transition_step:
  assumes one: "filter (\<lambda>r. payment_id r = payment_id p) (payments db) = [p]"
    and edge: "(status p, new) \<in> table_edges"
    and fits: "int4 (state_version p + 1)"
  shows "\<exists>db'. transition db p new rsn eid
                 = Inr (db', p\<lparr>status := new, state_version := state_version p + 1\<rparr>) \<and>
           filter (\<lambda>r. payment_id r = payment_id p) (payments db')
             = [p\<lparr>status := new, state_version := state_version p + 1\<rparr>] \<and>
           filter (\<lambda>r. payment_id r \<noteq> payment_id p) (payments db')
             = filter (\<lambda>r. payment_id r \<noteq> payment_id p) (payments db) \<and>
           payment_timeline db' = payment_timeline db @
             [\<lparr>pt_payment_id = payment_id p, from_state = Some (status p), to_state = new,
               reason = rsn, pt_event_id = eid\<rparr>] \<and>
           payment_attempts db' = payment_attempts db \<and>
           outbox_events db' = outbox_events db \<and>
           inbox_events db' = inbox_events db"
proof -
  let ?hit = "\<lambda>r. payment_id r = payment_id p \<and> status r = status p
                          \<and> state_version r = state_version p"
  let ?f = "\<lambda>r. if ?hit r then r\<lparr>status := new, state_version := state_version p + 1\<rparr> else r"
  have "filter ?hit (payments db)
          = filter (\<lambda>r. status r = status p \<and> state_version r = state_version p)
              (filter (\<lambda>r. payment_id r = payment_id p) (payments db))"
    by (simp add: conj_commute)
  then have cnt: "filter ?hit (payments db) = [p]" using one by simp
  have v: "validate_transition (status p) new = Inr ()"
    using edge validate_transition_edges by simp
  have t: "transition db p new rsn eid =
             Inr (db\<lparr>payments := map ?f (payments db),
                     payment_timeline := payment_timeline db @
                       [\<lparr>pt_payment_id = payment_id p, from_state = Some (status p),
                         to_state = new, reason = rsn, pt_event_id = eid\<rparr>]\<rparr>,
                  p\<lparr>status := new, state_version := state_version p + 1\<rparr>)"
    using v cnt fits by (simp add: transition_def seq_def Let_def)
  have a: "filter (\<lambda>r. payment_id r = payment_id p) (map ?f (payments db))
             = map ?f (filter (\<lambda>r. payment_id r = payment_id p) (payments db))"
    unfolding filter_map by (rule arg_cong [where f = "map ?f"], rule filter_cong) auto
  have b: "filter (\<lambda>r. payment_id r \<noteq> payment_id p) (map ?f (payments db))
             = filter (\<lambda>r. payment_id r \<noteq> payment_id p) (payments db)"
    by (rule filter_other_rows)
  show ?thesis
    using t a b one by simp
qed



lemma inbox_not_seen:
  "(eid, svc) \<notin> set (inbox_events db) \<Longrightarrow> inbox_seen svc db eid = Inr False"
proof -
  assume "(eid, svc) \<notin> set (inbox_events db)"
  then have "filter (\<lambda>r. fst r = eid \<and> snd r = svc) (inbox_events db) = []"
    by (auto simp: filter_empty_conv)
  then show ?thesis by (simp add: inbox_seen_def seq_def scalar_one_or_none_def)
qed

lemma integer_column_stored:
  "- 2147483648 \<le> n \<Longrightarrow> n \<le> 2147483647 \<Longrightarrow> integer_column (JInt n) = Inr n"
  by (simp add: integer_column_def int4_def)


lemma bind3_stored: "bind3 (Inr x) (Inr y) (Inr z) = Inr (x, y, z)"
  by (simp add: bind3_def seq_def)




lemma failed_edge_iff:
  "(s, ''FAILED'') \<in> table_edges \<longleftrightarrow>
     s \<in> {''CREATED'', ''RISK_REVIEW'', ''APPROVED'', ''AUTHORIZED'', ''CAPTURED''}"
  by (auto simp: table_edges_def)

lemma handle_failed_first_step:
  assumes one: "filter (\<lambda>r. payment_id r = payment_id p) (payments db) = [p]"
    and st: "status p = ''FAILED'' \<or> (status p, ''FAILED'') \<in> table_edges"
    and fits: "status p \<noteq> ''FAILED'' \<longrightarrow> int4 (state_version p + 1)"
  shows "\<exists>db1. (if status p \<noteq> ''FAILED'' then transition db p ''FAILED'' rsn eid
                 else Inr (db, p))
              = Inr (db1, p\<lparr>status := ''FAILED'',
                     state_version := state_version p + (if status p \<noteq> ''FAILED'' then 1 else 0)\<rparr>) \<and>
           filter (\<lambda>r. payment_id r = payment_id p) (payments db1)
             = [p\<lparr>status := ''FAILED'',
                  state_version := state_version p + (if status p \<noteq> ''FAILED'' then 1 else 0)\<rparr>] \<and>
           filter (\<lambda>r. payment_id r \<noteq> payment_id p) (payments db1)
             = filter (\<lambda>r. payment_id r \<noteq> payment_id p) (payments db) \<and>
           payment_timeline db1 = payment_timeline db @
             (if status p \<noteq> ''FAILED''
              then [\<lparr>pt_payment_id = payment_id p, from_state = Some (status p),
                      to_state = ''FAILED'', reason = rsn, pt_event_id = eid\<rparr>]
              else []) \<and>
           payment_attempts db1 = payment_attempts db \<and>
           outbox_events db1 = outbox_events db \<and>
           inbox_events db1 = inbox_events db"
proof (cases "status p = ''FAILED''")
  case True
  have "p\<lparr>status := ''FAILED'', state_version := state_version p\<rparr> = p"
    using True by simp
  with True one show ?thesis by simp
next
  case False
  with st have e: "(status p, ''FAILED'') \<in> table_edges" by simp
  from fits False have f: "int4 (state_version p + 1)" by simp
  from transition_step [OF one e f, of rsn eid] False show ?thesis by simp
qed

lemma nullable_string_column_stored:
  "nullable_string_column (case ec of None \<Rightarrow> JNull | Some x \<Rightarrow> JStr x) = Inr ec"
  by (cases ec) (simp_all add: nullable_string_column_def)

lemma py_str_error_code:
  "py_str (case ec of None \<Rightarrow> JNull | Some x \<Rightarrow> JStr x)
     = (case ec of None \<Rightarrow> ''None'' | Some x \<Rightarrow> x)"
  by (cases ec) (simp_all add: py_str_def)

text \<open>
  C4, as amended. Take a \<open>payments.failed\<close> event that is not in the orchestrator's inbox
  and whose payment is stored. If the payment's status is none of \<open>CREATED\<close>,
  \<open>RISK_REVIEW\<close>, \<open>APPROVED\<close>, \<open>AUTHORIZED\<close>, \<open>CAPTURED\<close> and \<open>FAILED\<close>, as \<open>SETTLED\<close> and
  \<open>REVERSED\<close> are not, the handler raises on the invalid transition to \<open>FAILED\<close> and
  nothing is written. Otherwise let \<open>state_version\<close> have room in its 32-bit column
  for the increments to come, let \<open>attempt_number\<close> and \<open>latency_ms\<close> be absent from the
  payload (then 1 and 0 are taken) or integers that fit their 32-bit columns, and let
  \<open>error_code\<close> be absent (then \<open>UNKNOWN\<close> is taken), null or a string. Then a payment
  not yet \<open>FAILED\<close> transitions to \<open>FAILED\<close>, and one that is \<open>FAILED\<close> already stays; a \<open>PaymentAttempt\<close> with result \<open>FAILED\<close> and that
  \<open>attempt_number\<close>, \<open>latency_ms\<close> and \<open>error_code\<close> is appended; and exactly when the
  \<open>error_code\<close> is \<open>PROVIDER_TIMEOUT\<close> the payment goes on to \<open>REVERSED\<close> and one pending
  \<open>payments.reversed\<close> outbox event with reason \<open>provider_timeout_compensation\<close> and the
  event's id as \<open>source_event_id\<close> is added; for any other \<open>error_code\<close> there is no such
  transition and no outbox event. The event is recorded in the inbox and no other
  payment row changes.
\<close>

theorem handle_failed_compensates:
  "(event_id event, svc) \<notin> set (inbox_events db) \<and>
   filter (\<lambda>r. payment_id r = aggregate_id event) (payments db) = [p] \<longrightarrow>
     (status p \<notin> {''CREATED'', ''RISK_REVIEW'', ''APPROVED'', ''AUTHORIZED'', ''CAPTURED'', ''FAILED''}
        \<longrightarrow> handle_failed svc db m event g = Inl (InvalidTransition (status p) ''FAILED'')) \<and>
     (status p \<in> {''CREATED'', ''RISK_REVIEW'', ''APPROVED'', ''AUTHORIZED'', ''CAPTURED'', ''FAILED''} \<and>
      - 2147483648 \<le> state_version p \<and>
      state_version p + (if status p \<noteq> ''FAILED'' then 1 else 0)
        + (if ec = Some ''PROVIDER_TIMEOUT'' then 1 else 0) \<le> 2147483647 \<and>
      (case map_of (payload event) ''attempt_number'' of None \<Rightarrow> JInt 1 | Some v \<Rightarrow> v)
        = JInt attempt \<and>
      - 2147483648 \<le> attempt \<and> attempt \<le> 2147483647 \<and>
      (case map_of (payload event) ''latency_ms'' of None \<Rightarrow> JInt 0 | Some v \<Rightarrow> v)
        = JInt latency \<and>
      - 2147483648 \<le> latency \<and> latency \<le> 2147483647 \<and>
      (case map_of (payload event) ''error_code'' of None \<Rightarrow> JStr ''UNKNOWN'' | Some v \<Rightarrow> v)
        = (case ec of None \<Rightarrow> JNull | Some x \<Rightarrow> JStr x)
        \<longrightarrow> (\<exists>db'. handle_failed svc db m event g = Inr (db', inc m ''payment_failure_total'' [svc]) \<and>
         payment_timeline db' = payment_timeline db @
           (if status p \<noteq> ''FAILED''
            then [\<lparr>pt_payment_id = aggregate_id event, from_state = Some (status p),
                    to_state = ''FAILED'',
                    reason = ''provider_failed:'' @ (case ec of None \<Rightarrow> ''None'' | Some x \<Rightarrow> x),
                    pt_event_id = Some (event_id event)\<rparr>]
            else []) @
           (if ec = Some ''PROVIDER_TIMEOUT''
            then [\<lparr>pt_payment_id = aggregate_id event, from_state = Some ''FAILED'',
                    to_state = ''REVERSED'', reason = ''provider_timeout_compensation'',
                    pt_event_id = Some (event_id event)\<rparr>]
            else []) \<and>
         payment_attempts db' = payment_attempts db @
           [\<lparr>pa_payment_id = aggregate_id event, pa_attempt_number = attempt,
             pa_result = ''FAILED'', pa_latency_ms = latency, pa_error_code = ec\<rparr>] \<and>
         outbox_events db' = outbox_events db @
           (if ec = Some ''PROVIDER_TIMEOUT''
            then [\<lparr>ob_id = new_row_id g, ob_aggregate_type = ''payment'',
                    ob_aggregate_id = aggregate_id event,
                    ob_event_type = ''payments.reversed'', ob_topic = ''payments.reversed'',
                    ob_payload =
                      [(''event_id'', JStr (new_event_id g)),
                       (''event_type'', JStr ''payments.reversed''),
                       (''aggregate_id'', JStr (aggregate_id event)),
                       (''occurred_at'', JStr (new_occurred_at g)),
                       (''trace_id'', JStr (trace_id event)),
                       (''payload'',
                        JObj [(''reason'', JStr ''provider_timeout_compensation''),
                              (''source_event_id'', JStr (event_id event))])],
                    ob_status = ''PENDING'', ob_sent_at = None\<rparr>]
            else []) \<and>
         inbox_events db' = inbox_events db @ [(event_id event, svc)] \<and>
         filter (\<lambda>r. payment_id r = aggregate_id event) (payments db')
           = [p\<lparr>status := (if ec = Some ''PROVIDER_TIMEOUT'' then ''REVERSED'' else ''FAILED''),
                 state_version := state_version p
                   + (if status p \<noteq> ''FAILED'' then 1 else 0)
                   + (if ec = Some ''PROVIDER_TIMEOUT'' then 1 else 0)\<rparr>] \<and>
         filter (\<lambda>r. payment_id r \<noteq> aggregate_id event) (payments db')
           = filter (\<lambda>r. payment_id r \<noteq> aggregate_id event) (payments db)))"
proof (intro impI conjI)
  assume h: "(event_id event, svc) \<notin> set (inbox_events db) \<and>
   filter (\<lambda>r. payment_id r = aggregate_id event) (payments db) = [p]"
  assume bad: "status p \<notin> {''CREATED'', ''RISK_REVIEW'', ''APPROVED'', ''AUTHORIZED'', ''CAPTURED'', ''FAILED''}"
  from h have seen: "inbox_seen svc db (event_id event) = Inr False"
    by (simp add: inbox_not_seen)
  from h have got: "get_payment db (aggregate_id event) = Some p"
    using get_payment_row by blast
  from bad have "(status p, ''FAILED'') \<notin> table_edges" by (simp add: failed_edge_iff)
  then have "validate_transition (status p) ''FAILED'' = Inl (InvalidTransition (status p) ''FAILED'')"
    using validate_transition_edges [of "status p" "''FAILED''"]
    by (auto simp: validate_transition_def split: if_splits)
  then show "handle_failed svc db m event g = Inl (InvalidTransition (status p) ''FAILED'')"
    using seen got bad by (simp add: handle_failed_def seq_def transition_def)
next
  assume b: "(event_id event, svc) \<notin> set (inbox_events db) \<and>
   filter (\<lambda>r. payment_id r = aggregate_id event) (payments db) = [p]"
  assume t: "status p \<in> {''CREATED'', ''RISK_REVIEW'', ''APPROVED'', ''AUTHORIZED'', ''CAPTURED'', ''FAILED''} \<and>
      - 2147483648 \<le> state_version p \<and>
      state_version p + (if status p \<noteq> ''FAILED'' then 1 else 0)
        + (if ec = Some ''PROVIDER_TIMEOUT'' then 1 else 0) \<le> 2147483647 \<and>
      (case map_of (payload event) ''attempt_number'' of None \<Rightarrow> JInt 1 | Some v \<Rightarrow> v)
        = JInt attempt \<and>
      - 2147483648 \<le> attempt \<and> attempt \<le> 2147483647 \<and>
      (case map_of (payload event) ''latency_ms'' of None \<Rightarrow> JInt 0 | Some v \<Rightarrow> v)
        = JInt latency \<and>
      - 2147483648 \<le> latency \<and> latency \<le> 2147483647 \<and>
      (case map_of (payload event) ''error_code'' of None \<Rightarrow> JStr ''UNKNOWN'' | Some v \<Rightarrow> v)
        = (case ec of None \<Rightarrow> JNull | Some x \<Rightarrow> JStr x)"
  from t have good: "status p \<in> {''CREATED'', ''RISK_REVIEW'', ''APPROVED'', ''AUTHORIZED'', ''CAPTURED'', ''FAILED''}"
    by (rule conjunct1)
  from t have h: "- 2147483648 \<le> state_version p \<and>
      state_version p + (if status p \<noteq> ''FAILED'' then 1 else 0)
        + (if ec = Some ''PROVIDER_TIMEOUT'' then 1 else 0) \<le> 2147483647 \<and>
      (case map_of (payload event) ''attempt_number'' of None \<Rightarrow> JInt 1 | Some v \<Rightarrow> v)
        = JInt attempt \<and>
      - 2147483648 \<le> attempt \<and> attempt \<le> 2147483647 \<and>
      (case map_of (payload event) ''latency_ms'' of None \<Rightarrow> JInt 0 | Some v \<Rightarrow> v)
        = JInt latency \<and>
      - 2147483648 \<le> latency \<and> latency \<le> 2147483647 \<and>
      (case map_of (payload event) ''error_code'' of None \<Rightarrow> JStr ''UNKNOWN'' | Some v \<Rightarrow> v)
        = (case ec of None \<Rightarrow> JNull | Some x \<Rightarrow> JStr x)"
    by (rule conjunct2)
  from b have seen: "inbox_seen svc db (event_id event) = Inr False"
    and one0: "filter (\<lambda>r. payment_id r = aggregate_id event) (payments db) = [p]"
    by (simp_all add: inbox_not_seen)
  from h have v: "- 2147483648 \<le> state_version p"
    "state_version p + (if status p \<noteq> ''FAILED'' then 1 else 0)
       + (if ec = Some ''PROVIDER_TIMEOUT'' then 1 else 0) \<le> 2147483647"
    by simp_all
  from h have an: "integer_column (dict_get_default (payload event) ''attempt_number'' (JInt 1))
                     = Inr attempt"
    by (simp add: dict_get_default_def integer_column_stored)
  from h have la: "integer_column (dict_get_default (payload event) ''latency_ms'' (JInt 0))
                     = Inr latency"
    by (simp add: dict_get_default_def integer_column_stored)
  from h have ecv: "dict_get_default (payload event) ''error_code'' (JStr ''UNKNOWN'')
                      = (case ec of None \<Rightarrow> JNull | Some x \<Rightarrow> JStr x)"
    by (simp add: dict_get_default_def)
  have ecol: "nullable_string_column
                (dict_get_default (payload event) ''error_code'' (JStr ''UNKNOWN'')) = Inr ec"
    unfolding ecv by (rule nullable_string_column_stored)
  have rsn: "py_str (dict_get_default (payload event) ''error_code'' (JStr ''UNKNOWN''))
               = (case ec of None \<Rightarrow> ''None'' | Some x \<Rightarrow> x)"
    unfolding ecv by (rule py_str_error_code)
  have tmo: "(dict_get (payload event) ''error_code'' = JStr ''PROVIDER_TIMEOUT'')
               = (ec = Some ''PROVIDER_TIMEOUT'')"
    using ecv by (cases ec; cases "map_of (payload event) ''error_code''")
      (auto simp: dict_get_def dict_get_default_def)
  have pid: "payment_id p = aggregate_id event" by (rule row_has_id [OF one0])
  have got: "get_payment db (aggregate_id event) = Some p" by (rule get_payment_row [OF one0])
  have one: "filter (\<lambda>r. payment_id r = payment_id p) (payments db) = [p]"
    using one0 pid by simp
  have st: "status p = ''FAILED'' \<or> (status p, ''FAILED'') \<in> table_edges"
    using good by (auto simp: failed_edge_iff)
  have f1: "status p \<noteq> ''FAILED'' \<longrightarrow> int4 (state_version p + 1)"
    using v by (auto simp: int4_def split: if_splits)
  let ?eid = "Some (event_id event)"
  let ?rsn = "''provider_failed:'' @
                py_str (dict_get_default (payload event) ''error_code'' (JStr ''UNKNOWN''))"
  let ?p1 = "p\<lparr>status := ''FAILED'',
                state_version := state_version p + (if status p \<noteq> ''FAILED'' then 1 else 0)\<rparr>"
  from handle_failed_first_step [OF one st f1, of ?rsn ?eid]
  obtain db1 where s1:
    "(if status p \<noteq> ''FAILED'' then transition db p ''FAILED'' ?rsn ?eid else Inr (db, p))
       = Inr (db1, ?p1)"
    "filter (\<lambda>r. payment_id r = payment_id p) (payments db1) = [?p1]"
    "filter (\<lambda>r. payment_id r \<noteq> payment_id p) (payments db1)
       = filter (\<lambda>r. payment_id r \<noteq> payment_id p) (payments db)"
    "payment_timeline db1 = payment_timeline db @
       (if status p \<noteq> ''FAILED''
        then [\<lparr>pt_payment_id = payment_id p, from_state = Some (status p),
                to_state = ''FAILED'', reason = ?rsn, pt_event_id = ?eid\<rparr>]
        else [])"
    "payment_attempts db1 = payment_attempts db"
    "outbox_events db1 = outbox_events db"
    "inbox_events db1 = inbox_events db"
    by blast
  show "(\<exists>db'. handle_failed svc db m event g = Inr (db', inc m ''payment_failure_total'' [svc]) \<and>
         payment_timeline db' = payment_timeline db @
           (if status p \<noteq> ''FAILED''
            then [\<lparr>pt_payment_id = aggregate_id event, from_state = Some (status p),
                    to_state = ''FAILED'',
                    reason = ''provider_failed:'' @ (case ec of None \<Rightarrow> ''None'' | Some x \<Rightarrow> x),
                    pt_event_id = Some (event_id event)\<rparr>]
            else []) @
           (if ec = Some ''PROVIDER_TIMEOUT''
            then [\<lparr>pt_payment_id = aggregate_id event, from_state = Some ''FAILED'',
                    to_state = ''REVERSED'', reason = ''provider_timeout_compensation'',
                    pt_event_id = Some (event_id event)\<rparr>]
            else []) \<and>
         payment_attempts db' = payment_attempts db @
           [\<lparr>pa_payment_id = aggregate_id event, pa_attempt_number = attempt,
             pa_result = ''FAILED'', pa_latency_ms = latency, pa_error_code = ec\<rparr>] \<and>
         outbox_events db' = outbox_events db @
           (if ec = Some ''PROVIDER_TIMEOUT''
            then [\<lparr>ob_id = new_row_id g, ob_aggregate_type = ''payment'',
                    ob_aggregate_id = aggregate_id event,
                    ob_event_type = ''payments.reversed'', ob_topic = ''payments.reversed'',
                    ob_payload =
                      [(''event_id'', JStr (new_event_id g)),
                       (''event_type'', JStr ''payments.reversed''),
                       (''aggregate_id'', JStr (aggregate_id event)),
                       (''occurred_at'', JStr (new_occurred_at g)),
                       (''trace_id'', JStr (trace_id event)),
                       (''payload'',
                        JObj [(''reason'', JStr ''provider_timeout_compensation''),
                              (''source_event_id'', JStr (event_id event))])],
                    ob_status = ''PENDING'', ob_sent_at = None\<rparr>]
            else []) \<and>
         inbox_events db' = inbox_events db @ [(event_id event, svc)] \<and>
         filter (\<lambda>r. payment_id r = aggregate_id event) (payments db')
           = [p\<lparr>status := (if ec = Some ''PROVIDER_TIMEOUT'' then ''REVERSED'' else ''FAILED''),
                 state_version := state_version p
                   + (if status p \<noteq> ''FAILED'' then 1 else 0)
                   + (if ec = Some ''PROVIDER_TIMEOUT'' then 1 else 0)\<rparr>] \<and>
         filter (\<lambda>r. payment_id r \<noteq> aggregate_id event) (payments db')
           = filter (\<lambda>r. payment_id r \<noteq> aggregate_id event) (payments db))"
  proof (cases "ec = Some ''PROVIDER_TIMEOUT''")
    case False
    show ?thesis
      using seen got s1 pid False an la ecol rsn tmo
      by (simp add: handle_failed_def seq_def Let_def mark_inbox_def add_outbox_def
          bind3_stored)
  next
    case True
    have one2: "filter (\<lambda>r. payment_id r = payment_id ?p1) (payments db1) = [?p1]"
      using s1(2) by simp
    have e: "(status ?p1, ''REVERSED'') \<in> table_edges" by (simp add: table_edges_def)
    have f2: "int4 (state_version ?p1 + 1)"
      using v True by (auto simp: int4_def split: if_splits)
    from transition_step [OF one2 e f2, of "''provider_timeout_compensation''" ?eid]
    obtain db3 where s3:
      "transition db1 ?p1 ''REVERSED'' ''provider_timeout_compensation'' ?eid
         = Inr (db3, ?p1\<lparr>status := ''REVERSED'', state_version := state_version ?p1 + 1\<rparr>)"
      "filter (\<lambda>r. payment_id r = payment_id ?p1) (payments db3)
         = [?p1\<lparr>status := ''REVERSED'', state_version := state_version ?p1 + 1\<rparr>]"
      "filter (\<lambda>r. payment_id r \<noteq> payment_id ?p1) (payments db3)
         = filter (\<lambda>r. payment_id r \<noteq> payment_id ?p1) (payments db1)"
      "payment_timeline db3 = payment_timeline db1 @
         [\<lparr>pt_payment_id = payment_id ?p1, from_state = Some (status ?p1),
           to_state = ''REVERSED'', reason = ''provider_timeout_compensation'',
           pt_event_id = ?eid\<rparr>]"
      "payment_attempts db3 = payment_attempts db1"
      "outbox_events db3 = outbox_events db1"
      "inbox_events db3 = inbox_events db1"
      by blast
    show ?thesis
      using seen got s1 s3 pid True an la ecol rsn tmo
      by (simp add: handle_failed_def seq_def Let_def mark_inbox_def add_outbox_def
          bind3_stored new_outbox_def model_dump_def)
  qed
qed

theorem handle_failed_compensates_witness:
  "inbox_events sample_approved_db = [] \<and>
   filter (\<lambda>r. payment_id r = ''pay-1'') (payments sample_approved_db)
     = [sample_payment ''APPROVED'' 1] \<and>
   status (sample_payment ''APPROVED'' 1) = ''APPROVED'' \<and>
   state_version (sample_payment ''APPROVED'' 1) = 1 \<and>
   payload sample_failed_timeout
     = [(''attempt_number'', JInt 3), (''latency_ms'', JInt 0),
        (''error_code'', JStr ''PROVIDER_TIMEOUT'')] \<and>
   (\<exists>db'. handle_failed ''orchestrator'' sample_approved_db sample_metrics sample_failed_timeout
             sample_fresh2
           = Inr (db', inc sample_metrics ''payment_failure_total'' [''orchestrator'']) \<and>
      payment_timeline db' =
        [sample_step None ''CREATED'' ''payment_created'' None,
         sample_step (Some ''CREATED'') ''APPROVED'' ''risk_approved'' (Some ''e1''),
         sample_step (Some ''APPROVED'') ''FAILED'' ''provider_failed:PROVIDER_TIMEOUT'' (Some ''e3''),
         sample_step (Some ''FAILED'') ''REVERSED'' ''provider_timeout_compensation'' (Some ''e3'')] \<and>
      payment_attempts db' =
        [\<lparr>pa_payment_id = ''pay-1'', pa_attempt_number = 3, pa_result = ''FAILED'',
          pa_latency_ms = 0, pa_error_code = Some ''PROVIDER_TIMEOUT''\<rparr>] \<and>
      outbox_events db' =
        [sample_requested,
         \<lparr>ob_id = ''row-2'', ob_aggregate_type = ''payment'', ob_aggregate_id = ''pay-1'',
          ob_event_type = ''payments.reversed'', ob_topic = ''payments.reversed'',
          ob_payload =
            [(''event_id'', JStr ''evt-2''), (''event_type'', JStr ''payments.reversed''),
             (''aggregate_id'', JStr ''pay-1''),
             (''occurred_at'', JStr ''2026-01-01T00:00:05''),
             (''trace_id'', JStr ''trace-1''),
             (''payload'',
              JObj [(''reason'', JStr ''provider_timeout_compensation''),
                    (''source_event_id'', JStr ''e3'')])],
          ob_status = ''PENDING'', ob_sent_at = None\<rparr>] \<and>
      inbox_events db' = [(''e3'', ''orchestrator'')] \<and>
      filter (\<lambda>r. payment_id r = ''pay-1'') (payments db') = [sample_payment ''REVERSED'' 3]) \<and>
   inbox_events sample_settled_db = [] \<and>
   filter (\<lambda>r. payment_id r = ''pay-1'') (payments sample_settled_db)
     = [sample_payment ''SETTLED'' 4] \<and>
   status (sample_payment ''SETTLED'' 4) = ''SETTLED'' \<and>
   state_version (sample_payment ''SETTLED'' 4) = 4 \<and>
   payload sample_failed_decline
     = [(''attempt_number'', JInt 1), (''latency_ms'', JInt 0),
        (''error_code'', JStr ''PROVIDER_DECLINE'')] \<and>
   handle_failed ''orchestrator'' sample_settled_db sample_metrics sample_failed_decline sample_fresh2
     = Inl (InvalidTransition ''SETTLED'' ''FAILED'')"
proof -
  have hyps: "(event_id sample_failed_timeout, ''orchestrator'') \<notin> set (inbox_events sample_approved_db) \<and>
   filter (\<lambda>r. payment_id r = aggregate_id sample_failed_timeout) (payments sample_approved_db) = [sample_payment ''APPROVED'' 1]"
    by (simp add: sample_approved_db_def sample_db_def sample_payment_def
        sample_failed_timeout_def)
  have st: "status (sample_payment ''APPROVED'' 1) \<in> {''CREATED'', ''RISK_REVIEW'', ''APPROVED'', ''AUTHORIZED'', ''CAPTURED'', ''FAILED''} \<and>
      - 2147483648 \<le> state_version (sample_payment ''APPROVED'' 1) \<and>
      state_version (sample_payment ''APPROVED'' 1) + (if status (sample_payment ''APPROVED'' 1) \<noteq> ''FAILED'' then 1 else 0)
        + (if Some ''PROVIDER_TIMEOUT'' = Some ''PROVIDER_TIMEOUT'' then 1 else 0) \<le> 2147483647 \<and>
      (case map_of (payload sample_failed_timeout) ''attempt_number'' of None \<Rightarrow> JInt 1 | Some v \<Rightarrow> v)
        = JInt 3 \<and>
      - 2147483648 \<le> (3::int) \<and> (3::int) \<le> 2147483647 \<and>
      (case map_of (payload sample_failed_timeout) ''latency_ms'' of None \<Rightarrow> JInt 0 | Some v \<Rightarrow> v)
        = JInt 0 \<and>
      - 2147483648 \<le> (0::int) \<and> (0::int) \<le> 2147483647 \<and>
      (case map_of (payload sample_failed_timeout) ''error_code'' of None \<Rightarrow> JStr ''UNKNOWN'' | Some v \<Rightarrow> v)
        = (case Some ''PROVIDER_TIMEOUT'' of None \<Rightarrow> JNull | Some x \<Rightarrow> JStr x)"
    by (simp add: sample_payment_def sample_failed_timeout_def)
  note inst = handle_failed_compensates
    [where event = sample_failed_timeout and svc = "''orchestrator''"
       and db = sample_approved_db and p = "sample_payment ''APPROVED'' 1"
       and attempt = 3 and latency = 0 and ec = "Some ''PROVIDER_TIMEOUT''"
       and m = sample_metrics and g = sample_fresh2,
     THEN mp, OF hyps, THEN conjunct2, THEN mp, OF st]
  have a: "(\<exists>db'. handle_failed ''orchestrator'' sample_approved_db sample_metrics sample_failed_timeout
             sample_fresh2
           = Inr (db', inc sample_metrics ''payment_failure_total'' [''orchestrator'']) \<and>
      payment_timeline db' =
        [sample_step None ''CREATED'' ''payment_created'' None,
         sample_step (Some ''CREATED'') ''APPROVED'' ''risk_approved'' (Some ''e1''),
         sample_step (Some ''APPROVED'') ''FAILED'' ''provider_failed:PROVIDER_TIMEOUT'' (Some ''e3''),
         sample_step (Some ''FAILED'') ''REVERSED'' ''provider_timeout_compensation'' (Some ''e3'')] \<and>
      payment_attempts db' =
        [\<lparr>pa_payment_id = ''pay-1'', pa_attempt_number = 3, pa_result = ''FAILED'',
          pa_latency_ms = 0, pa_error_code = Some ''PROVIDER_TIMEOUT''\<rparr>] \<and>
      outbox_events db' =
        [sample_requested,
         \<lparr>ob_id = ''row-2'', ob_aggregate_type = ''payment'', ob_aggregate_id = ''pay-1'',
          ob_event_type = ''payments.reversed'', ob_topic = ''payments.reversed'',
          ob_payload =
            [(''event_id'', JStr ''evt-2''), (''event_type'', JStr ''payments.reversed''),
             (''aggregate_id'', JStr ''pay-1''),
             (''occurred_at'', JStr ''2026-01-01T00:00:05''),
             (''trace_id'', JStr ''trace-1''),
             (''payload'',
              JObj [(''reason'', JStr ''provider_timeout_compensation''),
                    (''source_event_id'', JStr ''e3'')])],
          ob_status = ''PENDING'', ob_sent_at = None\<rparr>] \<and>
      inbox_events db' = [(''e3'', ''orchestrator'')] \<and>
      filter (\<lambda>r. payment_id r = ''pay-1'') (payments db') = [sample_payment ''REVERSED'' 3])"
    using inst
    apply (simp add: sample_approved_db_def sample_db_def sample_payment_def
        sample_failed_timeout_def sample_step_def sample_fresh2_def)
    apply (elim exE conjE)
    apply (intro exI conjI)
          apply assumption+
    done
  have hyps': "(event_id sample_failed_decline, ''orchestrator'') \<notin> set (inbox_events sample_settled_db) \<and>
   filter (\<lambda>r. payment_id r = aggregate_id sample_failed_decline) (payments sample_settled_db) = [sample_payment ''SETTLED'' 4]"
    by (simp add: sample_settled_db_def sample_db_def sample_payment_def
        sample_failed_decline_def)
  have st': "status (sample_payment ''SETTLED'' 4) \<notin> {''CREATED'', ''RISK_REVIEW'', ''APPROVED'', ''AUTHORIZED'', ''CAPTURED'', ''FAILED''}"
    by (simp add: sample_payment_def)
  note inst' = handle_failed_compensates
    [where event = sample_failed_decline and svc = "''orchestrator''"
       and db = sample_settled_db and p = "sample_payment ''SETTLED'' 4"
       and attempt = 1 and latency = 0 and ec = "Some ''PROVIDER_DECLINE''"
       and m = sample_metrics and g = sample_fresh2,
     THEN mp, OF hyps', THEN conjunct1, THEN mp, OF st']
  have b: "handle_failed ''orchestrator'' sample_settled_db sample_metrics sample_failed_decline sample_fresh2
     = Inl (InvalidTransition ''SETTLED'' ''FAILED'')"
    using inst' by (simp add: sample_payment_def)
  have f1: "inbox_events sample_approved_db = [] \<and>
   filter (\<lambda>r. payment_id r = ''pay-1'') (payments sample_approved_db)
     = [sample_payment ''APPROVED'' 1] \<and>
   status (sample_payment ''APPROVED'' 1) = ''APPROVED'' \<and>
   state_version (sample_payment ''APPROVED'' 1) = 1 \<and>
   payload sample_failed_timeout
     = [(''attempt_number'', JInt 3), (''latency_ms'', JInt 0),
        (''error_code'', JStr ''PROVIDER_TIMEOUT'')]"
    by (simp add: sample_approved_db_def sample_db_def sample_payment_def
        sample_failed_timeout_def)
  have f2: "inbox_events sample_settled_db = [] \<and>
   filter (\<lambda>r. payment_id r = ''pay-1'') (payments sample_settled_db)
     = [sample_payment ''SETTLED'' 4] \<and>
   status (sample_payment ''SETTLED'' 4) = ''SETTLED'' \<and>
   state_version (sample_payment ''SETTLED'' 4) = 4 \<and>
   payload sample_failed_decline
     = [(''attempt_number'', JInt 1), (''latency_ms'', JInt 0),
        (''error_code'', JStr ''PROVIDER_DECLINE'')]"
    by (simp add: sample_settled_db_def sample_db_def sample_payment_def
        sample_failed_decline_def)
  from f1 a f2 b show ?thesis by (intro conjI) simp_all
qed

text \<open>
  C4 as stated fails on a terminal payment. The sample payment is stored in status
  \<open>SETTLED\<close>, the \<open>payments.failed\<close> event \<open>e9\<close> for it is not in the inbox, and the status
  is not \<open>FAILED\<close>; the handler raises on the transition from \<open>SETTLED\<close> to \<open>FAILED\<close>, so
  the payment does not transition and no \<open>PaymentAttempt\<close> is appended.
\<close>

theorem handle_failed_terminal_counterexample:
  "inbox_seen ''orchestrator'' sample_settled_db (event_id sample_failed_decline) = Inr False \<and>
   get_payment sample_settled_db (aggregate_id sample_failed_decline)
     = Some (sample_payment ''SETTLED'' 4) \<and>
   status (sample_payment ''SETTLED'' 4) \<noteq> ''FAILED'' \<and>
   handle_failed ''orchestrator'' sample_settled_db sample_metrics sample_failed_decline sample_fresh2
     = Inl (InvalidTransition ''SETTLED'' ''FAILED'')"
  by (simp add: handle_failed_def inbox_seen_def seq_def scalar_one_or_none_def get_payment_def
      transition_def validate_transition_def allowed_from_def ALLOWED_TRANSITIONS_def
      sample_settled_db_def sample_db_def sample_payment_def sample_failed_decline_def)

text \<open>
  The typing of the payload matters as well: with \<open>attempt_number\<close> null the transition
  to \<open>FAILED\<close> is accepted, but the \<open>payment_attempts\<close> row cannot be stored, so the handler
  raises and nothing is committed.
\<close>

lemma handle_failed_null_attempt:
  "inbox_events sample_approved_db = [] \<and>
   get_payment sample_approved_db (aggregate_id sample_failed_null)
     = Some (sample_payment ''APPROVED'' 1) \<and>
   map_of (payload sample_failed_null) ''attempt_number'' = Some JNull \<and>
   handle_failed ''orchestrator'' sample_approved_db sample_metrics sample_failed_null
     sample_fresh2 = Inl IntegrityError"
  by (simp add: handle_failed_def inbox_seen_def scalar_one_or_none_def seq_def Let_def
      get_payment_def transition_def validate_transition_def allowed_from_def
      ALLOWED_TRANSITIONS_def int4_def bind3_def integer_column_def nullable_string_column_def
      dict_get_default_def dict_get_def py_str_def
      sample_approved_db_def sample_db_def sample_payment_def sample_failed_null_def
      sample_step_def)

section \<open>Risk decision\<close>

lemma rule_keys_differ: "''velocity:'' @ x \<noteq> ''failed_attempts:'' @ y"
  by simp

lemma rule_decision_redis:
  "fst (rule_decision cfg rdb hour_key cust a) =
     rdb\<lparr>r_val := (r_val rdb)(''velocity:'' @ py_str cust @ '':'' @ hour_key \<mapsto>
                     (case r_val rdb (''velocity:'' @ py_str cust @ '':'' @ hour_key) of
                        None \<Rightarrow> 0 | Some n \<Rightarrow> n) + 1),
          r_ttl := (r_ttl rdb)(''velocity:'' @ py_str cust @ '':'' @ hour_key \<mapsto> 7200)\<rparr>"
  by (simp add: rule_decision_def redis_incr_def redis_expire_def Let_def)

lemma rule_decision_value:
  "snd (rule_decision cfg rdb hour_key cust a) =
     (let v = (case r_val rdb (''velocity:'' @ py_str cust @ '':'' @ hour_key) of
                 None \<Rightarrow> 0 | Some n \<Rightarrow> n) + 1;
          f = (case r_val rdb (''failed_attempts:'' @ py_str cust) of None \<Rightarrow> 0 | Some n \<Rightarrow> n)
      in if v > risk_deny_frequency_threshold cfg then (''DENY'', ''high_frequency'')
         else if a > risk_review_amount_cents cfg then (''REVIEW'', ''high_amount'')
         else if f \<ge> 3 then (''REVIEW'', ''multiple_failed_attempts'')
         else if v > risk_velocity_per_hour cfg then (''REVIEW'', ''velocity_threshold'')
         else (''APPROVE'', ''rule_passed''))"
  by (simp add: rule_decision_def redis_incr_def redis_expire_def Let_def)

lemma rule_decision_cases:
  "fst (snd (rule_decision cfg rdb hour_key cust a)) \<in> {''DENY'', ''REVIEW'', ''APPROVE''}"
  by (simp add: rule_decision_value Let_def)





section \<open>Provider adapter: retries and dead letters\<close>

lemma attempts_1_3: "[1 .. 3] = [1, 2, 3 :: int]"
  by (simp add: upto_rec1)

lemma attempt_loop_forced_timeout:
  "attempt_loop svc event True fd draw latency g [1, 2, 3] last_error (db, m, slept) =
     (False, ''PROVIDER_TIMEOUT'',
      (db,
       inc (inc (inc m ''retries_total'' [svc, ''provider'']) ''retries_total'' [svc, ''provider''])
         ''retries_total'' [svc, ''provider''],
       slept @ [1, 2, 4]))"
  by (simp add: Let_def)

text \<open>
  C6, as amended. For a \<open>provider.authorize.requested\<close> event that is not in the provider
  adapter's inbox, passes the payload validation and whose \<open>customer_id\<close>, in lower case,
  starts with \<open>force-timeout\<close>: whatever the random draws and measured latencies, the
  handler runs three attempts that all time out, sleeping 1, 2 and 4 seconds and
  counting three retries; it writes no \<open>ProviderAttempt\<close>; and it appends exactly two
  pending outbox rows, a \<open>payments.failed\<close> event with \<open>error_code = PROVIDER_TIMEOUT\<close> and
  a \<open>payments.dlq\<close> event with \<open>error_type = RETRY_EXHAUSTED\<close>, \<open>retryable = true\<close>,
  \<open>replay_topic = provider.authorize.requested\<close> and \<open>failed_event\<close> the consumed
  envelope, field by field. The event is in the inbox afterwards.
\<close>

theorem force_timeout_exhausts_retries:
  "(event_id event, svc) \<notin> set (inbox_events db) \<and>
   validate_authorize_payload event = Inr (cust, amt, cur) \<and>
   startswith (py_lower cust) ''force-timeout'' \<longrightarrow>
   handle_authorize_request svc db m event draw latency g1 g2 =
     Inr (db\<lparr>outbox_events := outbox_events db @
               [\<lparr>ob_id = new_row_id g1, ob_aggregate_type = ''payment'',
                 ob_aggregate_id = aggregate_id event,
                 ob_event_type = ''payments.failed'', ob_topic = ''payments.failed'',
                 ob_payload =
                   [(''event_id'', JStr (new_event_id g1)),
                    (''event_type'', JStr ''payments.failed''),
                    (''aggregate_id'', JStr (aggregate_id event)),
                    (''occurred_at'', JStr (new_occurred_at g1)),
                    (''trace_id'', JStr (trace_id event)),
                    (''payload'',
                     JObj [(''attempt_number'', JInt 3), (''latency_ms'', JInt 0),
                          (''error_code'', JStr ''PROVIDER_TIMEOUT'')])],
                 ob_status = ''PENDING'', ob_sent_at = None\<rparr>,
                \<lparr>ob_id = new_row_id g2, ob_aggregate_type = ''payment'',
                 ob_aggregate_id = aggregate_id event,
                 ob_event_type = ''payments.dlq'', ob_topic = ''payments.dlq'',
                 ob_payload =
                   [(''event_id'', JStr (new_event_id g2)),
                    (''event_type'', JStr ''payments.dlq''),
                    (''aggregate_id'', JStr (aggregate_id event)),
                    (''occurred_at'', JStr (new_occurred_at g2)),
                    (''trace_id'', JStr (trace_id event)),
                    (''payload'',
                     JObj [(''reason'', JStr ''PROVIDER_TIMEOUT''),
                          (''error_type'', JStr ''RETRY_EXHAUSTED''),
                          (''retryable'', JBool True),
                          (''source'', JStr svc),
                          (''source_event_id'', JStr (event_id event)),
                          (''replay_topic'', JStr ''provider.authorize.requested''),
                          (''failed_event'',
                           JObj [(''event_id'', JStr (event_id event)),
                                 (''event_type'', JStr (event_type event)),
                                 (''aggregate_id'', JStr (aggregate_id event)),
                                 (''occurred_at'', JStr (occurred_at event)),
                                 (''trace_id'', JStr (trace_id event)),
                                 (''payload'', JObj (payload event))])])],
                 ob_status = ''PENDING'', ob_sent_at = None\<rparr>],
             inbox_events := inbox_events db @ [(event_id event, svc)]\<rparr>,
          inc (inc (inc (inc m ''retries_total'' [svc, ''provider''])
                      ''retries_total'' [svc, ''provider''])
                 ''retries_total'' [svc, ''provider''])
            ''dlq_published_total'' [svc, ''payments.dlq'', ''RETRY_EXHAUSTED''],
          [1, 2, 4])"
proof
  assume h: "(event_id event, svc) \<notin> set (inbox_events db) \<and>
   validate_authorize_payload event = Inr (cust, amt, cur) \<and>
   startswith (py_lower cust) ''force-timeout''"
  then have seen: "inbox_seen svc db (event_id event) = Inr False"
    by (simp add: inbox_not_seen)
  from h seen show "handle_authorize_request svc db m event draw latency g1 g2 =
     Inr (db\<lparr>outbox_events := outbox_events db @
               [\<lparr>ob_id = new_row_id g1, ob_aggregate_type = ''payment'',
                 ob_aggregate_id = aggregate_id event,
                 ob_event_type = ''payments.failed'', ob_topic = ''payments.failed'',
                 ob_payload =
                   [(''event_id'', JStr (new_event_id g1)),
                    (''event_type'', JStr ''payments.failed''),
                    (''aggregate_id'', JStr (aggregate_id event)),
                    (''occurred_at'', JStr (new_occurred_at g1)),
                    (''trace_id'', JStr (trace_id event)),
                    (''payload'',
                     JObj [(''attempt_number'', JInt 3), (''latency_ms'', JInt 0),
                          (''error_code'', JStr ''PROVIDER_TIMEOUT'')])],
                 ob_status = ''PENDING'', ob_sent_at = None\<rparr>,
                \<lparr>ob_id = new_row_id g2, ob_aggregate_type = ''payment'',
                 ob_aggregate_id = aggregate_id event,
                 ob_event_type = ''payments.dlq'', ob_topic = ''payments.dlq'',
                 ob_payload =
                   [(''event_id'', JStr (new_event_id g2)),
                    (''event_type'', JStr ''payments.dlq''),
                    (''aggregate_id'', JStr (aggregate_id event)),
                    (''occurred_at'', JStr (new_occurred_at g2)),
                    (''trace_id'', JStr (trace_id event)),
                    (''payload'',
                     JObj [(''reason'', JStr ''PROVIDER_TIMEOUT''),
                          (''error_type'', JStr ''RETRY_EXHAUSTED''),
                          (''retryable'', JBool True),
                          (''source'', JStr svc),
                          (''source_event_id'', JStr (event_id event)),
                          (''replay_topic'', JStr ''provider.authorize.requested''),
                          (''failed_event'',
                           JObj [(''event_id'', JStr (event_id event)),
                                 (''event_type'', JStr (event_type event)),
                                 (''aggregate_id'', JStr (aggregate_id event)),
                                 (''occurred_at'', JStr (occurred_at event)),
                                 (''trace_id'', JStr (trace_id event)),
                                 (''payload'', JObj (payload event))])])],
                 ob_status = ''PENDING'', ob_sent_at = None\<rparr>],
             inbox_events := inbox_events db @ [(event_id event, svc)]\<rparr>,
          inc (inc (inc (inc m ''retries_total'' [svc, ''provider''])
                      ''retries_total'' [svc, ''provider''])
                 ''retries_total'' [svc, ''provider''])
            ''dlq_published_total'' [svc, ''payments.dlq'', ''RETRY_EXHAUSTED''],
          [1, 2, 4])"
    by (simp add: handle_authorize_request_def seq_def Let_def attempts_1_3
        attempt_loop_forced_timeout enqueue_dlq_def mark_inbox_def add_outbox_def
        new_outbox_def model_dump_def
        del: attempt_loop.simps)
qed

lemma sample_lower: "py_lower ''Force-Timeout-A'' = ''force-timeout-a''"
  by code_simp

theorem force_timeout_exhausts_retries_witness:
  "inbox_events sample_prov_db = [] \<and>
   validate_authorize_payload sample_authorize_request
     = Inr (''Force-Timeout-A'', JInt 5000, ''USD'') \<and>
   startswith (py_lower ''Force-Timeout-A'') ''force-timeout'' \<and>
   handle_authorize_request ''provider-adapter'' sample_prov_db sample_metrics
       sample_authorize_request sample_draw sample_latency sample_fresh sample_fresh2 =
     Inr (\<lparr>outbox_events =
               [\<lparr>ob_id = new_row_id sample_fresh, ob_aggregate_type = ''payment'',
                 ob_aggregate_id = aggregate_id sample_authorize_request,
                 ob_event_type = ''payments.failed'', ob_topic = ''payments.failed'',
                 ob_payload =
                   [(''event_id'', JStr (new_event_id sample_fresh)),
                    (''event_type'', JStr ''payments.failed''),
                    (''aggregate_id'', JStr (aggregate_id sample_authorize_request)),
                    (''occurred_at'', JStr (new_occurred_at sample_fresh)),
                    (''trace_id'', JStr (trace_id sample_authorize_request)),
                    (''payload'',
                     JObj [(''attempt_number'', JInt 3), (''latency_ms'', JInt 0),
                          (''error_code'', JStr ''PROVIDER_TIMEOUT'')])],
                 ob_status = ''PENDING'', ob_sent_at = None\<rparr>,
                \<lparr>ob_id = new_row_id sample_fresh2, ob_aggregate_type = ''payment'',
                 ob_aggregate_id = aggregate_id sample_authorize_request,
                 ob_event_type = ''payments.dlq'', ob_topic = ''payments.dlq'',
                 ob_payload =
                   [(''event_id'', JStr (new_event_id sample_fresh2)),
                    (''event_type'', JStr ''payments.dlq''),
                    (''aggregate_id'', JStr (aggregate_id sample_authorize_request)),
                    (''occurred_at'', JStr (new_occurred_at sample_fresh2)),
                    (''trace_id'', JStr (trace_id sample_authorize_request)),
                    (''payload'',
                     JObj [(''reason'', JStr ''PROVIDER_TIMEOUT''),
                          (''error_type'', JStr ''RETRY_EXHAUSTED''),
                          (''retryable'', JBool True),
                          (''source'', JStr ''provider-adapter''),
                          (''source_event_id'', JStr (event_id sample_authorize_request)),
                          (''replay_topic'', JStr ''provider.authorize.requested''),
                          (''failed_event'',
                           JObj [(''event_id'', JStr (event_id sample_authorize_request)),
                                 (''event_type'', JStr (event_type sample_authorize_request)),
                                 (''aggregate_id'', JStr (aggregate_id sample_authorize_request)),
                                 (''occurred_at'', JStr (occurred_at sample_authorize_request)),
                                 (''trace_id'', JStr (trace_id sample_authorize_request)),
                                 (''payload'', JObj (payload sample_authorize_request))])])],
                 ob_status = ''PENDING'', ob_sent_at = None\<rparr>],
            inbox_events = [(''e5'', ''provider-adapter'')],
            provider_attempts = []\<rparr>,
          inc (inc (inc (inc sample_metrics ''retries_total'' [''provider-adapter'', ''provider''])
                      ''retries_total'' [''provider-adapter'', ''provider''])
                 ''retries_total'' [''provider-adapter'', ''provider''])
            ''dlq_published_total'' [''provider-adapter'', ''payments.dlq'', ''RETRY_EXHAUSTED''],
          [1, 2, 4])"
proof -
  have e: "inbox_events sample_prov_db = []" by (simp add: sample_prov_db_def)
  have v: "validate_authorize_payload sample_authorize_request
             = Inr (''Force-Timeout-A'', JInt 5000, ''USD'')"
    by (simp add: validate_authorize_payload_def dict_get_def sample_authorize_request_def)
  have f: "startswith (py_lower ''Force-Timeout-A'') ''force-timeout''"
    by (simp add: sample_lower startswith_def)
  have hyps: "(event_id sample_authorize_request, ''provider-adapter'')
                \<notin> set (inbox_events sample_prov_db) \<and>
      validate_authorize_payload sample_authorize_request
        = Inr (''Force-Timeout-A'', JInt 5000, ''USD'') \<and>
      startswith (py_lower ''Force-Timeout-A'') ''force-timeout''"
    using e v f by simp
  note run = force_timeout_exhausts_retries
    [of sample_authorize_request "''provider-adapter''" sample_prov_db "''Force-Timeout-A''"
        "JInt 5000" "''USD''" sample_metrics sample_draw sample_latency sample_fresh
        sample_fresh2, THEN mp, OF hyps]
  have r: "handle_authorize_request ''provider-adapter'' sample_prov_db sample_metrics
       sample_authorize_request sample_draw sample_latency sample_fresh sample_fresh2 =
     Inr (\<lparr>outbox_events =
               [\<lparr>ob_id = new_row_id sample_fresh, ob_aggregate_type = ''payment'',
                 ob_aggregate_id = aggregate_id sample_authorize_request,
                 ob_event_type = ''payments.failed'', ob_topic = ''payments.failed'',
                 ob_payload =
                   [(''event_id'', JStr (new_event_id sample_fresh)),
                    (''event_type'', JStr ''payments.failed''),
                    (''aggregate_id'', JStr (aggregate_id sample_authorize_request)),
                    (''occurred_at'', JStr (new_occurred_at sample_fresh)),
                    (''trace_id'', JStr (trace_id sample_authorize_request)),
                    (''payload'',
                     JObj [(''attempt_number'', JInt 3), (''latency_ms'', JInt 0),
                          (''error_code'', JStr ''PROVIDER_TIMEOUT'')])],
                 ob_status = ''PENDING'', ob_sent_at = None\<rparr>,
                \<lparr>ob_id = new_row_id sample_fresh2, ob_aggregate_type = ''payment'',
                 ob_aggregate_id = aggregate_id sample_authorize_request,
                 ob_event_type = ''payments.dlq'', ob_topic = ''payments.dlq'',
                 ob_payload =
                   [(''event_id'', JStr (new_event_id sample_fresh2)),
                    (''event_type'', JStr ''payments.dlq''),
                    (''aggregate_id'', JStr (aggregate_id sample_authorize_request)),
                    (''occurred_at'', JStr (new_occurred_at sample_fresh2)),
                    (''trace_id'', JStr (trace_id sample_authorize_request)),
                    (''payload'',
                     JObj [(''reason'', JStr ''PROVIDER_TIMEOUT''),
                          (''error_type'', JStr ''RETRY_EXHAUSTED''),
                          (''retryable'', JBool True),
                          (''source'', JStr ''provider-adapter''),
                          (''source_event_id'', JStr (event_id sample_authorize_request)),
                          (''replay_topic'', JStr ''provider.authorize.requested''),
                          (''failed_event'',
                           JObj [(''event_id'', JStr (event_id sample_authorize_request)),
                                 (''event_type'', JStr (event_type sample_authorize_request)),
                                 (''aggregate_id'', JStr (aggregate_id sample_authorize_request)),
                                 (''occurred_at'', JStr (occurred_at sample_authorize_request)),
                                 (''trace_id'', JStr (trace_id sample_authorize_request)),
                                 (''payload'', JObj (payload sample_authorize_request))])])],
                 ob_status = ''PENDING'', ob_sent_at = None\<rparr>],
            inbox_events = [(''e5'', ''provider-adapter'')],
            provider_attempts = []\<rparr>,
          inc (inc (inc (inc sample_metrics ''retries_total'' [''provider-adapter'', ''provider''])
                      ''retries_total'' [''provider-adapter'', ''provider''])
                 ''retries_total'' [''provider-adapter'', ''provider''])
            ''dlq_published_total'' [''provider-adapter'', ''payments.dlq'', ''RETRY_EXHAUSTED''],
          [1, 2, 4])"
    unfolding run by (simp add: sample_prov_db_def sample_authorize_request_def)
  from e v f r show ?thesis by (intro conjI)
qed

text \<open>
  C6 as claimed fails on a second delivery. The sample event is valid and its
  \<open>customer_id\<close> starts with \<open>force-timeout\<close>, but it is already in the provider adapter's
  inbox: the handler counts a skipped duplicate and returns, with no attempt, no wait
  and no outbox row.
\<close>

theorem force_timeout_redelivery_counterexample:
  "inbox_events sample_seen_prov_db = [(event_id sample_authorize_request, ''provider-adapter'')] \<and>
   outbox_events sample_seen_prov_db = [] \<and>
   validate_authorize_payload sample_authorize_request
     = Inr (''Force-Timeout-A'', JInt 5000, ''USD'') \<and>
   startswith (py_lower ''Force-Timeout-A'') ''force-timeout'' \<and>
   handle_authorize_request ''provider-adapter'' sample_seen_prov_db sample_metrics
       sample_authorize_request sample_draw sample_latency sample_fresh sample_fresh2
     = Inr (sample_seen_prov_db,
            inc sample_metrics ''duplicate_events_skipped_total''
              [''provider-adapter'', ''provider.authorize.requested''],
            [])"
  by (simp add: handle_authorize_request_def inbox_seen_def scalar_one_or_none_def seq_def
      record_duplicate_skip_def validate_authorize_payload_def dict_get_def sample_lower
      startswith_def sample_seen_prov_db_def sample_prov_db_def sample_authorize_request_def)

section \<open>Ledger posting\<close>




lemma post_entry_Inr:
  assumes "post_entry (db, pending) tx_id acct dir amount = Inr (db1, pending1)"
  shows "ledger_entries db1 = ledger_entries db" and "inbox_events db1 = inbox_events db"
    and "outbox_events db1 = outbox_events db"
    and "pending1 = pending @ [\<lparr>transaction_id = tx_id, le_account_id = acct, direction = dir,
                      le_amount_cents = amount\<rparr>]"
  using assms by (auto simp: post_entry_def split: option.splits)


lemma handle_captured_Inr:
  assumes "handle_captured svc db m event g = Inr (db', m')"
  shows "(db' = db \<and> inbox_seen svc db (event_id event) = Inr True) \<or>
         (inbox_seen svc db (event_id event) = Inr False \<and>
          inbox_events db' = inbox_events db @ [(event_id event, svc)] \<and>
          (\<exists>amount. ledger_entries db' = ledger_entries db @
             [\<lparr>transaction_id = ''settlement:'' @ aggregate_id event,
               le_account_id = ''customer_cash'', direction = ''DEBIT'',
               le_amount_cents = amount\<rparr>,
              \<lparr>transaction_id = ''settlement:'' @ aggregate_id event,
               le_account_id = ''merchant_receivable'', direction = ''CREDIT'',
               le_amount_cents = amount\<rparr>]))"
proof (cases "inbox_seen svc db (event_id event)")
  case (Inl e)
  with assms show ?thesis by (simp add: handle_captured_def seq_def)
next
  case (Inr seen)
  show ?thesis
  proof (cases seen)
    case True
    with Inr assms show ?thesis by (simp add: handle_captured_def seq_def)
  next
    case False
    from assms Inr False obtain v amount sess1 sess2 where
      s: "dict_item (payload event) ''amount_cents'' = Inr v" "py_int v = Inr amount"
         "post_entry (db, []) (''settlement:'' @ aggregate_id event) ''customer_cash'' ''DEBIT''
            amount = Inr sess1"
         "post_entry sess1 (''settlement:'' @ aggregate_id event) ''merchant_receivable''
            ''CREDIT'' amount = Inr sess2"
      by (auto simp: handle_captured_def seq_def Let_def split: sum.splits if_splits)
    obtain db1 p1 where sess1: "sess1 = (db1, p1)" by (cases sess1) auto
    obtain db2 p2 where sess2: "sess2 = (db2, p2)" by (cases sess2) auto
    note f1 = post_entry_Inr [OF s(3) [unfolded sess1]]
    note f2 = post_entry_Inr [OF s(4) [unfolded sess1 sess2]]
    from assms Inr False s sess1 sess2 f1 f2 show ?thesis
      by (auto simp: handle_captured_def seq_def Let_def mark_inbox_def add_outbox_def
          split: if_splits)
  qed
qed







section \<open>Gateway rate limiter\<close>

text \<open>
  C9, as amended. The limiter keeps one bucket per \<open>customer_id\<close>, of capacity
  \<open>rate_limit_per_minute\<close> tokens and refilled at \<open>rate_limit_per_minute/60\<close> tokens per
  second: the tokens available to a request are the stored ones plus the refill for the
  elapsed time, at most the capacity; the request is rejected with status 429 exactly
  when fewer than 1 token is available, and then the refilled amount is stored;
  otherwise it is accepted and one token less is stored. The buckets of other customers
  are not touched.
\<close>

theorem token_bucket_per_customer:
  "available_tokens cfg store cust now \<le> real_of_int (rate_limit_per_minute cfg) \<and>
   (fst (enforce_token_bucket cfg store cust now) = Inl (HTTPException 429 ''rate limit exceeded'')
      \<longleftrightarrow> available_tokens cfg store cust now < 1) \<and>
   (available_tokens cfg store cust now < 1 \<longrightarrow>
      snd (enforce_token_bucket cfg store cust now) =
        store(''tokenbucket:'' @ cust \<mapsto>
          \<lparr>tokens = available_tokens cfg store cust now, updated_at = now,
           expires_at = now + 120\<rparr>)) \<and>
   (\<not> available_tokens cfg store cust now < 1 \<longrightarrow>
      fst (enforce_token_bucket cfg store cust now) = Inr () \<and>
      snd (enforce_token_bucket cfg store cust now) =
        store(''tokenbucket:'' @ cust \<mapsto>
          \<lparr>tokens = available_tokens cfg store cust now - 1, updated_at = now,
           expires_at = now + 120\<rparr>)) \<and>
   (\<forall>other. other \<noteq> cust \<longrightarrow>
      snd (enforce_token_bucket cfg store cust now) (''tokenbucket:'' @ other)
        = store (''tokenbucket:'' @ other))"
  by (auto simp: enforce_token_bucket_def available_tokens_def Let_def split: option.splits)

lemma sample_available_1: "available_tokens settings sample_buckets ''cust-1'' 11 = 7 / 10"
  by (simp add: available_tokens_def sample_buckets_def settings_def)

lemma sample_available_2: "available_tokens settings sample_buckets ''cust-2'' 11 = 30"
  by (simp add: available_tokens_def sample_buckets_def settings_def)


theorem token_bucket_per_customer_witness:
  "available_tokens settings sample_buckets ''cust-1'' 11 = 7 / 10 \<and>
   available_tokens settings sample_buckets ''cust-1'' 11 < 1 \<and>
   fst (enforce_token_bucket settings sample_buckets ''cust-1'' 11)
     = Inl (HTTPException 429 ''rate limit exceeded'') \<and>
   snd (enforce_token_bucket settings sample_buckets ''cust-1'' 11) =
     sample_buckets(''tokenbucket:cust-1'' \<mapsto>
       \<lparr>tokens = 7 / 10, updated_at = 11, expires_at = 131\<rparr>) \<and>
   \<not> available_tokens settings sample_buckets ''cust-2'' 11 < 1 \<and>
   fst (enforce_token_bucket settings sample_buckets ''cust-2'' 11) = Inr () \<and>
   snd (enforce_token_bucket settings sample_buckets ''cust-2'' 11) =
     sample_buckets(''tokenbucket:cust-2'' \<mapsto>
       \<lparr>tokens = 29, updated_at = 11, expires_at = 131\<rparr>) \<and>
   ''cust-2'' \<noteq> ''cust-1'' \<and>
   snd (enforce_token_bucket settings sample_buckets ''cust-1'' 11) ''tokenbucket:cust-2''
     = sample_buckets ''tokenbucket:cust-2''"
proof -
  note i1 = token_bucket_per_customer [of settings sample_buckets "''cust-1''" 11]
  note i2 = token_bucket_per_customer [of settings sample_buckets "''cust-2''" 11]
  have lt: "available_tokens settings sample_buckets ''cust-1'' 11 < 1"
    unfolding sample_available_1 by simp
  have ge: "\<not> available_tokens settings sample_buckets ''cust-2'' 11 < 1"
    unfolding sample_available_2 by simp
  have r1: "fst (enforce_token_bucket settings sample_buckets ''cust-1'' 11)
              = Inl (HTTPException 429 ''rate limit exceeded'')"
    using i1 [THEN conjunct2, THEN conjunct1] lt by (rule iffD2)
  have s1: "snd (enforce_token_bucket settings sample_buckets ''cust-1'' 11) =
     sample_buckets(''tokenbucket:cust-1'' \<mapsto>
       \<lparr>tokens = 7 / 10, updated_at = 11, expires_at = 131\<rparr>)"
    using i1 [THEN conjunct2, THEN conjunct2, THEN conjunct1, THEN mp, OF lt]
    unfolding sample_available_1 by simp
  note acc = i2 [THEN conjunct2, THEN conjunct2, THEN conjunct2, THEN conjunct1, THEN mp, OF ge]
  have r2: "fst (enforce_token_bucket settings sample_buckets ''cust-2'' 11) = Inr ()"
    by (rule acc [THEN conjunct1])
  have s2: "snd (enforce_token_bucket settings sample_buckets ''cust-2'' 11) =
     sample_buckets(''tokenbucket:cust-2'' \<mapsto>
       \<lparr>tokens = 29, updated_at = 11, expires_at = 131\<rparr>)"
    using acc [THEN conjunct2] unfolding sample_available_2 by simp
  have ne: "''cust-2'' \<noteq> ''cust-1''" by simp
  have o: "snd (enforce_token_bucket settings sample_buckets ''cust-1'' 11) ''tokenbucket:cust-2''
     = sample_buckets ''tokenbucket:cust-2''"
    using i1 [THEN conjunct2, THEN conjunct2, THEN conjunct2, THEN conjunct2, rule_format, OF ne]
    by simp
  show ?thesis
    by (intro conjI sample_available_1 lt r1 s1 ge r2 s2 ne o)
qed

text \<open>
  C9 as stated gives the bucket a capacity of \<open>rate_limit_per_minute/60\<close>, half a token
  with the default of 30 per minute. The code lets a new customer's first request
  through and keeps 29 tokens, more than that capacity; the limiter with the stated
  capacity rejects the same request.
\<close>

theorem token_bucket_capacity_counterexample:
  "fst (enforce_token_bucket settings Map.empty ''cust-1'' 0) = Inr () \<and>
   snd (enforce_token_bucket settings Map.empty ''cust-1'' 0) ''tokenbucket:cust-1''
     = Some \<lparr>tokens = 29, updated_at = 0, expires_at = 120\<rparr> \<and>
   \<not> (29 \<le> real_of_int (rate_limit_per_minute settings) / 60) \<and>
   fst (enforce_token_bucket_as_claimed settings Map.empty ''cust-1'' 0)
     = Inl (HTTPException 429 ''rate limit exceeded'')"
  by (simp add: enforce_token_bucket_def enforce_token_bucket_as_claimed_def settings_def Let_def)

section \<open>Duplicate deliveries and the inbox\<close>

lemma inbox_seen_False:
  "inbox_seen svc db eid = Inr False \<Longrightarrow> (eid, svc) \<notin> set (inbox_events db)"
proof
  assume a: "inbox_seen svc db eid = Inr False" and b: "(eid, svc) \<in> set (inbox_events db)"
  from b have "filter (\<lambda>r. fst r = eid \<and> snd r = svc) (inbox_events db) \<noteq> []"
    by (force simp: filter_empty_conv)
  with a show False
    by (auto simp: inbox_seen_def seq_def scalar_one_or_none_def split: list.splits)
qed

lemma transition_inbox:
  "transition db p new rsn eid = Inr x \<Longrightarrow> inbox_events (fst x) = inbox_events db"
  by (cases x) (simp add: transition_Inr(7))

lemma handle_risk_approved_inbox:
  assumes "handle_risk_approved svc db m event g = Inr (db', m')"
  shows "inbox_events db' = inbox_events db \<or>
         (inbox_seen svc db (event_id event) = Inr False \<and>
          inbox_events db' = inbox_events db @ [(event_id event, svc)])"
  using assms
  by (auto simp: handle_risk_approved_def seq_def Let_def mark_inbox_def add_outbox_def
      split: sum.splits option.splits if_splits dest!: transition_inbox)

lemma handle_risk_denied_inbox:
  assumes "handle_risk_denied svc db m event = Inr (db', m')"
  shows "inbox_events db' = inbox_events db \<or>
         (inbox_seen svc db (event_id event) = Inr False \<and>
          inbox_events db' = inbox_events db @ [(event_id event, svc)])"
  using assms
  by (auto simp: handle_risk_denied_def seq_def Let_def mark_inbox_def add_outbox_def
      split: sum.splits option.splits if_splits dest!: transition_inbox)

lemma handle_settled_inbox:
  assumes "handle_settled svc db m event = Inr (db', m')"
  shows "inbox_events db' = inbox_events db \<or>
         (inbox_seen svc db (event_id event) = Inr False \<and>
          inbox_events db' = inbox_events db @ [(event_id event, svc)])"
  using assms
  by (auto simp: handle_settled_def seq_def Let_def mark_inbox_def add_outbox_def
      split: sum.splits option.splits if_splits dest!: transition_inbox)

lemma handle_authorized_inbox:
  assumes "handle_authorized svc db m event g = Inr (db', m')"
  shows "inbox_events db' = inbox_events db \<or>
         (inbox_seen svc db (event_id event) = Inr False \<and>
          inbox_events db' = inbox_events db @ [(event_id event, svc)])"
  using assms
  by (auto simp: handle_authorized_def seq_def Let_def mark_inbox_def add_outbox_def
      split: sum.splits option.splits if_splits dest!: transition_inbox)


lemma handle_failed_inbox:
  assumes "handle_failed svc db m event g = Inr (db', m')"
  shows "inbox_events db' = inbox_events db \<or>
         (inbox_seen svc db (event_id event) = Inr False \<and>
          inbox_events db' = inbox_events db @ [(event_id event, svc)])"
  using assms
  by (auto simp: handle_failed_def seq_def Let_def mark_inbox_def add_outbox_def
      split: sum.splits option.splits if_splits dest!: transition_inbox)


lemma attempt_loop_inbox:
  "attempt_loop svc event ft fd draw latency g attempts last_error w = (ret, err, w') \<Longrightarrow>
     inbox_events (fst w') = inbox_events (fst w)"
proof (induction attempts arbitrary: last_error w)
  case Nil
  then show ?case by simp
next
  case (Cons attempt rest)
  show ?case
  proof (cases "(if ft then ''TIMEOUT'' else if fd then ''DECLINE'' else draw attempt) = ''SUCCESS''")
    case True
    with Cons.prems show ?thesis by (auto simp: Let_def add_outbox_def)
  next
    case ns: False
    show ?thesis
    proof (cases "(if ft then ''TIMEOUT'' else if fd then ''DECLINE'' else draw attempt) = ''DECLINE''")
      case True
      with ns Cons.prems show ?thesis by (auto simp: Let_def add_outbox_def)
    next
      case False
      with ns Cons.prems have
        "attempt_loop svc event ft fd draw latency g rest ''PROVIDER_TIMEOUT''
           (fst w, inc (fst (snd w)) ''retries_total'' [svc, ''provider''],
            snd (snd w) @ [2 ^ nat (attempt - 1)]) = (ret, err, w')"
        by (simp add: Let_def)
      from Cons.IH [OF this] show ?thesis by simp
    qed
  qed
qed

lemma handle_authorize_request_inbox:
  assumes "handle_authorize_request svc db m event draw latency g1 g2 = Inr (db', m', slept)"
  shows "inbox_events db' = inbox_events db \<or>
         (inbox_seen svc db (event_id event) = Inr False \<and>
          inbox_events db' = inbox_events db @ [(event_id event, svc)])"
proof (cases "inbox_seen svc db (event_id event)")
  case (Inl e)
  with assms show ?thesis by (simp add: handle_authorize_request_def seq_def)
next
  case (Inr seen)
  show ?thesis
  proof (cases seen)
    case True
    with Inr assms show ?thesis by (simp add: handle_authorize_request_def seq_def)
  next
    case False
    let ?db1 = "mark_inbox svc db (event_id event)"
    show ?thesis
    proof (cases "validate_authorize_payload event")
      case (Inl e)
      with assms Inr False show ?thesis
        by (cases e)
           (auto simp: handle_authorize_request_def seq_def enqueue_dlq_def add_outbox_def
              mark_inbox_def Let_def)
    next
      case v: (Inr r)
      obtain cust amt cur where r: "r = (cust, amt, cur)" by (cases r) auto
      obtain ret err db2 m2 sl where
        l: "attempt_loop svc event (startswith (py_lower cust) ''force-timeout'')
              (startswith (py_lower cust) ''force-decline'') draw latency g1 [1 .. 3] ''UNKNOWN''
              (?db1, m, []) = (ret, err, (db2, m2, sl))"
        by (metis prod_cases5)
      from attempt_loop_inbox [OF l] have i: "inbox_events db2 = inbox_events ?db1" by simp
      from assms Inr False v r l i show ?thesis
        by (auto simp: handle_authorize_request_def seq_def enqueue_dlq_def add_outbox_def
              mark_inbox_def Let_def split: if_splits)
    qed
  qed
qed

lemma handle_payment_requested_inbox:
  assumes "handle_payment_requested svc cfg db rdb m event hour_key g = (Inr (db', m'), rdb')"
  shows "inbox_events db' = inbox_events db \<or>
         (inbox_seen svc db (event_id event) = Inr False \<and>
          inbox_events db' = inbox_events db @ [(event_id event, svc)])"
  using assms
  by (auto simp: handle_payment_requested_def seq_def Let_def mark_inbox_def add_outbox_def
      scalar_one_or_none_def
      split: sum.splits option.splits if_splits prod.splits bool.splits list.splits)

lemma handle_captured_inbox:
  assumes "handle_captured svc db m event g = Inr (db', m')"
  shows "inbox_events db' = inbox_events db \<or>
         (inbox_seen svc db (event_id event) = Inr False \<and>
          inbox_events db' = inbox_events db @ [(event_id event, svc)])"
  using handle_captured_Inr [OF assms] by auto


text \<open>
  C2. When the pair of an event's id and the service name is already in the service's
  inbox, each of the eight consumers (the orchestrator's five, the risk service's, the
  provider adapter's and the ledger's) returns the database it was given, so no payment,
  audit, attempt, ledger, review, outbox or inbox row is written, and the key/value store
  of the risk service is not touched; the only change is that the counter
  \<open>duplicate_events_skipped_total\<close> of the service and topic is one higher, every other
  counter keeping its value. And whenever a consumer commits, on any event, an inbox
  without repeated rows is still without repeated rows: no pair of event id and service
  name is ever stored twice.
\<close>

theorem duplicate_delivery_skipped:
  "(inbox_seen svc odb (event_id event) = Inr True \<longrightarrow>
      handle_risk_approved svc odb m event g
        = Inr (odb, record_duplicate_skip svc m ''risk.approved'') \<and>
      handle_risk_denied svc odb m event
        = Inr (odb, record_duplicate_skip svc m ''risk.denied'') \<and>
      handle_authorized svc odb m event g
        = Inr (odb, record_duplicate_skip svc m ''payments.authorized'') \<and>
      handle_failed svc odb m event g
        = Inr (odb, record_duplicate_skip svc m ''payments.failed'') \<and>
      handle_settled svc odb m event
        = Inr (odb, record_duplicate_skip svc m ''payments.settled'')) \<and>
   (inbox_seen svc rdb (event_id event) = Inr True \<longrightarrow>
      handle_payment_requested svc cfg rdb kv m event hour_key g
        = (Inr (rdb, record_duplicate_skip svc m ''payments.requested''), kv)) \<and>
   (inbox_seen svc pdb (event_id event) = Inr True \<longrightarrow>
      handle_authorize_request svc pdb m event draw latency g g2
        = Inr (pdb, record_duplicate_skip svc m ''provider.authorize.requested'', [])) \<and>
   (inbox_seen svc ldb (event_id event) = Inr True \<longrightarrow>
      handle_captured svc ldb m event g
        = Inr (ldb, record_duplicate_skip svc m ''payments.captured'')) \<and>
   record_duplicate_skip svc m topic (''duplicate_events_skipped_total'', [svc, topic])
     = m (''duplicate_events_skipped_total'', [svc, topic]) + 1 \<and>
   (\<forall>k. k \<noteq> (''duplicate_events_skipped_total'', [svc, topic]) \<longrightarrow>
      record_duplicate_skip svc m topic k = m k) \<and>
   (distinct (inbox_events odb) \<longrightarrow>
      (handle_risk_approved svc odb m event g = Inr (odb', m') \<longrightarrow> distinct (inbox_events odb')) \<and>
      (handle_risk_denied svc odb m event = Inr (odb', m') \<longrightarrow> distinct (inbox_events odb')) \<and>
      (handle_authorized svc odb m event g = Inr (odb', m') \<longrightarrow> distinct (inbox_events odb')) \<and>
      (handle_failed svc odb m event g = Inr (odb', m') \<longrightarrow> distinct (inbox_events odb')) \<and>
      (handle_settled svc odb m event = Inr (odb', m') \<longrightarrow> distinct (inbox_events odb'))) \<and>
   (distinct (inbox_events rdb) \<and>
    handle_payment_requested svc cfg rdb kv m event hour_key g = (Inr (rdb', m'), kv')
      \<longrightarrow> distinct (inbox_events rdb')) \<and>
   (distinct (inbox_events pdb) \<and>
    handle_authorize_request svc pdb m event draw latency g g2 = Inr (pdb', m', slept)
      \<longrightarrow> distinct (inbox_events pdb')) \<and>
   (distinct (inbox_events ldb) \<and> handle_captured svc ldb m event g = Inr (ldb', m')
      \<longrightarrow> distinct (inbox_events ldb'))"
proof -
  have orch: "inbox_seen svc odb (event_id event) = Inr True \<longrightarrow>
      handle_risk_approved svc odb m event g
        = Inr (odb, record_duplicate_skip svc m ''risk.approved'') \<and>
      handle_risk_denied svc odb m event
        = Inr (odb, record_duplicate_skip svc m ''risk.denied'') \<and>
      handle_authorized svc odb m event g
        = Inr (odb, record_duplicate_skip svc m ''payments.authorized'') \<and>
      handle_failed svc odb m event g
        = Inr (odb, record_duplicate_skip svc m ''payments.failed'') \<and>
      handle_settled svc odb m event
        = Inr (odb, record_duplicate_skip svc m ''payments.settled'')"
    by (simp add: handle_risk_approved_def handle_risk_denied_def handle_authorized_def
        handle_failed_def handle_settled_def seq_def)
  have risk: "inbox_seen svc rdb (event_id event) = Inr True \<longrightarrow>
      handle_payment_requested svc cfg rdb kv m event hour_key g
        = (Inr (rdb, record_duplicate_skip svc m ''payments.requested''), kv)"
    by (simp add: handle_payment_requested_def)
  have prov: "inbox_seen svc pdb (event_id event) = Inr True \<longrightarrow>
      handle_authorize_request svc pdb m event draw latency g g2
        = Inr (pdb, record_duplicate_skip svc m ''provider.authorize.requested'', [])"
    by (simp add: handle_authorize_request_def seq_def)
  have ledg: "inbox_seen svc ldb (event_id event) = Inr True \<longrightarrow>
      handle_captured svc ldb m event g
        = Inr (ldb, record_duplicate_skip svc m ''payments.captured'')"
    by (simp add: handle_captured_def seq_def)
  have cnt: "record_duplicate_skip svc m topic (''duplicate_events_skipped_total'', [svc, topic])
     = m (''duplicate_events_skipped_total'', [svc, topic]) + 1"
    by (simp add: record_duplicate_skip_def inc_def)
  have oth: "\<forall>k. k \<noteq> (''duplicate_events_skipped_total'', [svc, topic]) \<longrightarrow>
      record_duplicate_skip svc m topic k = m k"
    by (simp add: record_duplicate_skip_def inc_def)
  have d1: "distinct (inbox_events odb) \<longrightarrow>
      (handle_risk_approved svc odb m event g = Inr (odb', m') \<longrightarrow> distinct (inbox_events odb')) \<and>
      (handle_risk_denied svc odb m event = Inr (odb', m') \<longrightarrow> distinct (inbox_events odb')) \<and>
      (handle_authorized svc odb m event g = Inr (odb', m') \<longrightarrow> distinct (inbox_events odb')) \<and>
      (handle_failed svc odb m event g = Inr (odb', m') \<longrightarrow> distinct (inbox_events odb')) \<and>
      (handle_settled svc odb m event = Inr (odb', m') \<longrightarrow> distinct (inbox_events odb'))"
    using handle_risk_approved_inbox [of svc odb m event g odb' m']
      handle_risk_denied_inbox [of svc odb m event odb' m']
      handle_authorized_inbox [of svc odb m event g odb' m']
      handle_failed_inbox [of svc odb m event g odb' m']
      handle_settled_inbox [of svc odb m event odb' m']
      inbox_seen_False [of svc odb "event_id event"]
    by auto
  have d2: "distinct (inbox_events rdb) \<and>
    handle_payment_requested svc cfg rdb kv m event hour_key g = (Inr (rdb', m'), kv')
      \<longrightarrow> distinct (inbox_events rdb')"
    using handle_payment_requested_inbox [of svc cfg rdb kv m event hour_key g rdb' m' kv']
      inbox_seen_False [of svc rdb "event_id event"]
    by auto
  have d3: "distinct (inbox_events pdb) \<and>
    handle_authorize_request svc pdb m event draw latency g g2 = Inr (pdb', m', slept)
      \<longrightarrow> distinct (inbox_events pdb')"
    using handle_authorize_request_inbox [of svc pdb m event draw latency g g2 pdb' m' slept]
      inbox_seen_False [of svc pdb "event_id event"]
    by auto
  have d4: "distinct (inbox_events ldb) \<and> handle_captured svc ldb m event g = Inr (ldb', m')
      \<longrightarrow> distinct (inbox_events ldb')"
    using handle_captured_inbox [of svc ldb m event g ldb' m']
      inbox_seen_False [of svc ldb "event_id event"]
    by auto
  show ?thesis
    by (intro conjI orch risk prov ledg cnt oth d1 d2 d3 d4)
qed

theorem duplicate_delivery_skipped_witness:
  "inbox_seen ''orchestrator'' sample_seen_db (event_id sample_authorized) = Inr True \<and>
   handle_risk_approved ''orchestrator'' sample_seen_db sample_metrics sample_authorized sample_fresh2
     = Inr (sample_seen_db, record_duplicate_skip ''orchestrator'' sample_metrics ''risk.approved'') \<and>
   handle_risk_denied ''orchestrator'' sample_seen_db sample_metrics sample_authorized
     = Inr (sample_seen_db, record_duplicate_skip ''orchestrator'' sample_metrics ''risk.denied'') \<and>
   handle_authorized ''orchestrator'' sample_seen_db sample_metrics sample_authorized sample_fresh2
     = Inr (sample_seen_db,
            record_duplicate_skip ''orchestrator'' sample_metrics ''payments.authorized'') \<and>
   handle_failed ''orchestrator'' sample_seen_db sample_metrics sample_authorized sample_fresh2
     = Inr (sample_seen_db, record_duplicate_skip ''orchestrator'' sample_metrics ''payments.failed'') \<and>
   handle_settled ''orchestrator'' sample_seen_db sample_metrics sample_authorized
     = Inr (sample_seen_db, record_duplicate_skip ''orchestrator'' sample_metrics ''payments.settled'') \<and>
   record_duplicate_skip ''orchestrator'' sample_metrics ''payments.authorized''
       (''duplicate_events_skipped_total'', [''orchestrator'', ''payments.authorized'']) = 1 \<and>
   (''payment_failure_total'', [''orchestrator''])
     \<noteq> (''duplicate_events_skipped_total'', [''orchestrator'', ''payments.authorized'']) \<and>
   record_duplicate_skip ''orchestrator'' sample_metrics ''payments.authorized''
       (''payment_failure_total'', [''orchestrator'']) = 0 \<and>
   inbox_seen ''risk'' sample_seen_risk_db (event_id sample_payment_requested) = Inr True \<and>
   handle_payment_requested ''risk'' settings sample_seen_risk_db sample_redis sample_metrics
       sample_payment_requested ''2026010100'' sample_fresh2
     = (Inr (sample_seen_risk_db,
             record_duplicate_skip ''risk'' sample_metrics ''payments.requested''), sample_redis) \<and>
   inbox_seen ''provider-adapter'' sample_seen_prov_db (event_id sample_authorize_request)
     = Inr True \<and>
   handle_authorize_request ''provider-adapter'' sample_seen_prov_db sample_metrics
       sample_authorize_request (\<lambda>_. ''SUCCESS'') (\<lambda>_. 0) sample_fresh sample_fresh2
     = Inr (sample_seen_prov_db,
            record_duplicate_skip ''provider-adapter'' sample_metrics
              ''provider.authorize.requested'', []) \<and>
   inbox_seen ''ledger'' sample_seen_ledger_db (event_id sample_captured) = Inr True \<and>
   handle_captured ''ledger'' sample_seen_ledger_db sample_metrics sample_captured sample_fresh2
     = Inr (sample_seen_ledger_db,
            record_duplicate_skip ''ledger'' sample_metrics ''payments.captured'') \<and>
   distinct (inbox_events sample_seen_db) \<and>
   handle_settled ''orchestrator'' sample_seen_db sample_metrics sample_settled_event
     = Inr (sample_settled_db\<lparr>inbox_events := [(''e2'', ''orchestrator''), (''e4'', ''orchestrator'')]\<rparr>,
            inc sample_metrics ''payment_success_total'' [''orchestrator'']) \<and>
   distinct (inbox_events
     (sample_settled_db\<lparr>inbox_events := [(''e2'', ''orchestrator''), (''e4'', ''orchestrator'')]\<rparr>)) \<and>
   distinct (inbox_events sample_seen_risk_db) \<and>
   distinct (inbox_events sample_seen_prov_db) \<and>
   distinct (inbox_events sample_seen_ledger_db)"
proof -
  let ?m = sample_metrics
  have so: "inbox_seen ''orchestrator'' sample_seen_db (event_id sample_authorized) = Inr True"
    by (simp add: inbox_seen_def seq_def scalar_one_or_none_def sample_seen_db_def
        sample_authorized_def)
  have sr: "inbox_seen ''risk'' sample_seen_risk_db (event_id sample_payment_requested) = Inr True"
    by (simp add: inbox_seen_def seq_def scalar_one_or_none_def sample_seen_risk_db_def
        sample_payment_requested_def)
  have sp: "inbox_seen ''provider-adapter'' sample_seen_prov_db (event_id sample_authorize_request)
              = Inr True"
    by (simp add: inbox_seen_def seq_def scalar_one_or_none_def sample_seen_prov_db_def
        sample_authorize_request_def)
  have sl: "inbox_seen ''ledger'' sample_seen_ledger_db (event_id sample_captured) = Inr True"
    by (simp add: inbox_seen_def seq_def scalar_one_or_none_def sample_seen_ledger_db_def
        sample_captured_def)
  note io = duplicate_delivery_skipped
    [where svc = "''orchestrator''" and odb = sample_seen_db and m = ?m
       and event = sample_authorized and g = sample_fresh2
       and topic = "''payments.authorized''"]
  note orch = io [THEN conjunct1, THEN mp, OF so]
  note rest = io [THEN conjunct2, THEN conjunct2, THEN conjunct2, THEN conjunct2]
  have c1: "record_duplicate_skip ''orchestrator'' ?m ''payments.authorized''
       (''duplicate_events_skipped_total'', [''orchestrator'', ''payments.authorized'']) = 1"
    using rest [THEN conjunct1] by (simp add: sample_metrics_def)
  have ne: "(''payment_failure_total'', [''orchestrator''])
     \<noteq> (''duplicate_events_skipped_total'', [''orchestrator'', ''payments.authorized''])"
    by simp
  have c2: "record_duplicate_skip ''orchestrator'' ?m ''payments.authorized''
       (''payment_failure_total'', [''orchestrator'']) = 0"
    using rest [THEN conjunct2, THEN conjunct1, rule_format, OF ne]
    by (simp add: sample_metrics_def)
  note risk = duplicate_delivery_skipped
    [where svc = "''risk''" and rdb = sample_seen_risk_db and m = ?m
       and event = sample_payment_requested and g = sample_fresh2 and cfg = settings
       and kv = sample_redis and hour_key = "''2026010100''",
     THEN conjunct2, THEN conjunct1, THEN mp, OF sr]
  note prov = duplicate_delivery_skipped
    [where svc = "''provider-adapter''" and pdb = sample_seen_prov_db and m = ?m
       and event = sample_authorize_request and g = sample_fresh and ?g2.0 = sample_fresh2
       and draw = "\<lambda>_. ''SUCCESS''" and latency = "\<lambda>_. 0",
     THEN conjunct2, THEN conjunct2, THEN conjunct1, THEN mp, OF sp]
  note ledg = duplicate_delivery_skipped
    [where svc = "''ledger''" and ldb = sample_seen_ledger_db and m = ?m
       and event = sample_captured and g = sample_fresh2,
     THEN conjunct2, THEN conjunct2, THEN conjunct2, THEN conjunct1, THEN mp, OF sl]
  have d0: "distinct (inbox_events sample_seen_db)"
    "distinct (inbox_events sample_seen_risk_db)"
    "distinct (inbox_events sample_seen_prov_db)"
    "distinct (inbox_events sample_seen_ledger_db)"
    by (simp_all add: sample_seen_db_def sample_seen_risk_db_def sample_seen_prov_db_def
        sample_seen_ledger_db_def)
  let ?out = "sample_settled_db\<lparr>inbox_events :=
                [(''e2'', ''orchestrator''), (''e4'', ''orchestrator'')]\<rparr>"
  have run: "handle_settled ''orchestrator'' sample_seen_db ?m sample_settled_event
     = Inr (?out, inc ?m ''payment_success_total'' [''orchestrator''])"
    by (simp add: handle_settled_def inbox_seen_def seq_def scalar_one_or_none_def
        get_payment_def transition_def validate_transition_def allowed_from_def
        ALLOWED_TRANSITIONS_def mark_inbox_def Let_def int4_def sample_seen_db_def
        sample_captured_db_def
        sample_settled_db_def sample_db_def sample_payment_def sample_step_def
        sample_settled_event_def)
  note settled = duplicate_delivery_skipped
    [where svc = "''orchestrator''" and odb = sample_seen_db and m = ?m
       and event = sample_settled_event and odb' = ?out
       and m' = "inc ?m ''payment_success_total'' [''orchestrator'']",
     THEN conjunct2, THEN conjunct2, THEN conjunct2, THEN conjunct2, THEN conjunct2,
     THEN conjunct2, THEN conjunct1, THEN mp, OF d0(1)]
  have d1: "distinct (inbox_events ?out)"
    using settled run by blast
  show ?thesis
    by (intro conjI so orch [THEN conjunct1] orch [THEN conjunct2, THEN conjunct1]
        orch [THEN conjunct2, THEN conjunct2, THEN conjunct1]
        orch [THEN conjunct2, THEN conjunct2, THEN conjunct2, THEN conjunct1]
        orch [THEN conjunct2, THEN conjunct2, THEN conjunct2, THEN conjunct2]
        c1 ne c2 sr risk sp prov sl ledg d0 run d1)
qed

end
